theory Spec2Isabelle
  imports Main "HOL-Library.Word"
begin

text \<open>
  The synchronisation core of the game server: the session manager, the friend routes,
  the land, event and currency routes. A route handler is a function from the server
  state and the parts of the request it reads to the response it sends and the new
  state. What a handler takes from its environment is a parameter: the clock
  (\<open>Date.now()\<close>), generated ids (\<open>uuidv4()\<close>, the session id), the configuration and the
  protobuf codec.
\<close>

section \<open>JavaScript values\<close>

text \<open>
  A request header, a field of a JSON body and a nullable TEXT column are a
  \<open>string option\<close>: \<open>None\<close> is \<open>undefined\<close>/\<open>null\<close>/SQL NULL. JavaScript's truthiness
  of such a value (\<open>!x\<close>, \<open>x || y\<close>, \<open>x ? a : b\<close>) is \<open>truthy\<close>: the empty string is falsy.
\<close>

definition truthy :: "string option \<Rightarrow> bool" where
  "truthy v = (case v of None \<Rightarrow> False | Some s \<Rightarrow> s \<noteq> [])"

definition js_or :: "string option \<Rightarrow> string option \<Rightarrow> string option" where
  "js_or a b = (if truthy a then a else b)"

text \<open>
  \<open>String(n)\<close> and \<open>n.toString()\<close> of an integer: its decimal digits.
\<close>

definition digitChar :: "nat \<Rightarrow> char" where
  "digitChar d = ''0123456789'' ! d"

fun digitsOf :: "nat \<Rightarrow> string" where
  "digitsOf n = (if n < 10 then [digitChar n] else digitsOf (n div 10) @ [digitChar (n mod 10)])"

declare digitsOf.simps [simp del]

definition toStringInt :: "int \<Rightarrow> string" where
  "toStringInt i = (if i < 0 then CHR ''-'' # digitsOf (nat (- i)) else digitsOf (nat i))"

text \<open>\<open>String(x)\<close> of a nullable integer column: \<open>String(null)\<close> is the text \<open>null\<close>.\<close>

definition StringOf :: "int option \<Rightarrow> string" where
  "StringOf v = (case v of None \<Rightarrow> ''null'' | Some i \<Rightarrow> toStringInt i)"

section \<open>The database (tables UserData and Friends)\<close>

text \<open>
  A table is the list of its rows in insertion order. The helpers of lib/db.js are not
  among the sources; as the handlers use them, \<open>dbGet\<close> returns the first row a query
  selects or nothing (\<open>find\<close>), and \<open>dbRun\<close> runs an INSERT, UPDATE or DELETE and
  reports the number of rows it changed. A nullable column is an \<open>option\<close>. The
  Friends table is created with no primary key and no unique index, so an INSERT,
  also an \<open>INSERT OR IGNORE\<close>, always appends a row.
\<close>

record user_row =
  MayhemId :: "string option"
  UserId :: "int option"
  UserName :: "string option"
  UserAccessToken :: "string option"
  WholeLandToken :: "string option"
  LandSavePath :: "string option"
  CurrencySavePath :: "string option"
  LastPlayedTime :: "int option"

record friend_row =
  ownerMayhemId :: "string option"
  friendMayhemId :: "string option"
  status :: string
  createdAt :: int

text \<open>
  SQL equality \<open>column = ?\<close>: never true when the column or the bound value is NULL.
  A request parameter is bound as a text. Against a TEXT column it is compared
  character by character.
\<close>

definition sqlEq :: "string option \<Rightarrow> string option \<Rightarrow> bool" where
  "sqlEq col p = (case p of None \<Rightarrow> False | Some v \<Rightarrow> col = Some v)"

text \<open>
  \<open>UserId\<close> is declared \<open>INT\<close>, so SQLite compares it with a bound text by value: a
  text that is a number as a whole (white space, an optional sign, digits with an
  optional point, an optional exponent with at least one digit, white space) is
  turned into that number, and any other text equals no integer. \<open>sqlNumeric\<close> reads
  such a text as \<open>(m, e)\<close>, standing for \<open>m * 10 ^ e\<close>; so the texts \<open>3\<close>, \<open>03\<close>, \<open>+3\<close>,
  \<open>3.0\<close>, \<open>30e-1\<close> and \<open>3\<close> between blanks all equal the user id 3, and \<open>3abc\<close>, \<open>0x3\<close>, \<open>1e\<close>
  and the empty text equal none. The value is taken exactly here; SQLite reads a text
  with a point or an exponent as a double, so the two agree on texts of at most 15
  significant digits, and a longer one that SQLite rounds to an integer is beyond
  this model.
\<close>

definition isSpace :: "char \<Rightarrow> bool" where
  "isSpace c = (of_char c = (32::nat) \<or> (9 \<le> (of_char c :: nat) \<and> (of_char c :: nat) \<le> 13))"

definition isDigit :: "char \<Rightarrow> bool" where
  "isDigit c = (48 \<le> (of_char c :: nat) \<and> (of_char c :: nat) \<le> 57)"

definition natOfDigits :: "string \<Rightarrow> nat" where
  "natOfDigits ds = foldl (\<lambda>n c. 10 * n + (of_char c - 48)) 0 ds"

text \<open>An optional sign: whether it is a minus, and the text after it.\<close>

definition signOf :: "string \<Rightarrow> bool \<times> string" where
  "signOf s = (case s of
       [] \<Rightarrow> (False, [])
     | c # r \<Rightarrow> if c = CHR ''-'' then (True, r) else if c = CHR ''+'' then (False, r) else (False, s))"

definition signedInt :: "bool \<Rightarrow> string \<Rightarrow> int" where
  "signedInt neg ds = (if neg then - int (natOfDigits ds) else int (natOfDigits ds))"

text \<open>The exponent part after the letter, up to the end of the text.\<close>

definition exponentOf :: "string \<Rightarrow> int option" where
  "exponentOf s =
     (case signOf s of (neg, r) \<Rightarrow>
        if takeWhile isDigit r = [] then None
        else if dropWhile isSpace (dropWhile isDigit r) = [] then Some (signedInt neg (takeWhile isDigit r))
        else None)"

definition sqlNumeric :: "string \<Rightarrow> (int \<times> int) option" where
  "sqlNumeric txt =
     (case signOf (dropWhile isSpace txt) of (neg, s1) \<Rightarrow>
        (let ip = takeWhile isDigit s1;
             s2 = dropWhile isDigit s1;
             pointed = (case s2 of [] \<Rightarrow> False | c # r \<Rightarrow> c = CHR ''.'');
             fp = (if pointed then takeWhile isDigit (tl s2) else []);
             s3 = (if pointed then dropWhile isDigit (tl s2) else s2);
             m = signedInt neg (ip @ fp)
         in if ip @ fp = [] then None
            else (case s3 of
                [] \<Rightarrow> Some (m, - int (length fp))
              | c # r \<Rightarrow>
                  if c = CHR ''e'' \<or> c = CHR ''E''
                  then map_option (\<lambda>x. (m, x - int (length fp))) (exponentOf r)
                  else if dropWhile isSpace s3 = [] then Some (m, - int (length fp))
                  else None)))"

definition sqlEqInt :: "int option \<Rightarrow> string \<Rightarrow> bool" where
  "sqlEqInt col p =
     (case col of
        None \<Rightarrow> False
      | Some i \<Rightarrow>
         (case sqlNumeric p of
            None \<Rightarrow> False
          | Some (m, e) \<Rightarrow> if 0 \<le> e then m * 10 ^ nat e = i else m = i * 10 ^ nat (- e)))"

text \<open>
  \<open>SELECT ... FROM UserData WHERE MayhemId = ? OR UserId = ?\<close>, with or without
  \<open>LIMIT 1\<close>, of which \<open>dbGet\<close> takes the first row. The query has no \<open>ORDER BY\<close>;
  both columns are \<open>UNIQUE\<close>, and SQLite answers the \<open>OR\<close> from the two indexes, one
  term after the other: the row whose \<open>MayhemId\<close> is the value comes first, and the row
  whose \<open>UserId\<close> equals it is the answer only when no \<open>MayhemId\<close> does.
\<close>

definition getUserByIdParam :: "user_row list \<Rightarrow> string \<Rightarrow> user_row option" where
  "getUserByIdParam us idParam =
     (case find (\<lambda>u. sqlEq (MayhemId u) (Some idParam)) us of
        Some u \<Rightarrow> Some u
      | None \<Rightarrow> find (\<lambda>u. sqlEqInt (UserId u) idParam) us)"

text \<open>\<open>SELECT ... FROM UserData WHERE UserAccessToken = ?\<close>.\<close>

definition userByToken :: "user_row list \<Rightarrow> string \<Rightarrow> user_row option" where
  "userByToken us tok = find (\<lambda>u. UserAccessToken u = Some tok) us"

text \<open>\<open>SELECT ... FROM UserData WHERE MayhemId = ?\<close>.\<close>

definition userByMayhemId :: "user_row list \<Rightarrow> string \<Rightarrow> user_row option" where
  "userByMayhemId us mid = find (\<lambda>u. MayhemId u = Some mid) us"

text \<open>
  \<open>SELECT 1 FROM Friends WHERE ownerMayhemId = ? AND friendMayhemId = ? AND
  status = 'accepted' LIMIT 1\<close>: the accepted-friend test of the land handler.
\<close>

definition isAccepted :: "friend_row list \<Rightarrow> string option \<Rightarrow> string option \<Rightarrow> bool" where
  "isAccepted fs a b =
     list_ex (\<lambda>f. sqlEq (ownerMayhemId f) a \<and> sqlEq (friendMayhemId f) b \<and> status f = ''accepted'') fs"

text \<open>The rows of the ordered pair \<open>(a, b)\<close>, whatever their status.\<close>

definition rowsOf :: "friend_row list \<Rightarrow> string option \<Rightarrow> string option \<Rightarrow> friend_row list" where
  "rowsOf fs a b = filter (\<lambda>f. sqlEq (ownerMayhemId f) a \<and> sqlEq (friendMayhemId f) b) fs"

section \<open>Requests and responses\<close>

type_synonym bytes = "8 word list"

record headers =
  nucleus_token :: "string option"
  mh_auth_params :: "string option"
  authorization :: "string option"
  x_auth_token :: "string option"
  land_update_token :: "string option"

text \<open>The keys of a JSON request body that the friend routes read.\<close>

record body =
  b_toId :: "string option"
  b_friendMayhemId :: "string option"
  b_targetId :: "string option"
  b_personaId :: "string option"
  b_recipientId :: "string option"
  b_fromId :: "string option"
  b_senderId :: "string option"
  b_friendId :: "string option"

text \<open>
  The messages of the wire schema, as far as the handlers read or write their fields;
  every other field of a message is carried in its \<open>...Rest\<close> part.
\<close>

record event_data =
  displayName :: string
  displayNameLen :: nat
  dataRest :: bytes

record event_message =
  eventId :: string
  fromPlayerId :: string
  toPlayerId :: string
  eventData :: "event_data option"
  eventRest :: bytes

record friend_list_entry =
  headerId :: nat
  friendID :: string
  hasBeenVisited :: bool
  hideInMap :: bool
  isOrigin :: bool

record land_message =
  landId :: string
  friendListData :: "friend_list_entry list"
  landRest :: bytes

record currency_data =
  currencyId :: string
  vcTotalPurchased :: int
  vcTotalAwarded :: int
  vcBalance :: int
  currencyCreatedAt :: int
  updatedAt :: int

record currency_delta =
  deltaId :: int
  amount :: int

record extra_land_message =
  currencyDelta :: "currency_delta list"
  extraRest :: bytes

text \<open>
  The protobuf types of lib/protobuf.js (loaded from TappedOut.proto, which is not part
  of the sources): decoding fails (throws) with \<open>None\<close>.
\<close>

record protobuf =
  decodeEventMessage :: "bytes \<Rightarrow> event_message option"
  decodeEventsMessage :: "bytes \<Rightarrow> event_message list option"
  encodeEventsMessage :: "event_message list \<Rightarrow> bytes"
  decodeLandMessage :: "bytes \<Rightarrow> land_message option"
  decodeCurrencyData :: "bytes \<Rightarrow> currency_data option"
  encodeCurrencyData :: "currency_data \<Rightarrow> bytes"
  decodeExtraLandMessage :: "bytes \<Rightarrow> extra_land_message option"

text \<open>
  What a handler sends. \<open>ErrorXml\<close> is the XML error document with its HTTP status, type
  and field; \<open>Json\<close> a JSON object with its status; a protobuf response carries the
  message the handler encodes; \<open>NextError\<close> is an exception handed to \<open>next(error)\<close>.
\<close>

datatype response =
    ErrorXml nat string string
  | Json nat "(string \<times> string) list"
  | NoContent
  | LandUpdateResponse
  | LandMessageResponse land_message
  | EventsBytes bytes
  | EventsMessageResponse "event_message list"
  | CurrencyBytes bytes
  | ExtraLandResponse "int list"
  | WholeLandTokenResponse "string option" string
  | InternalError
  | NextError

record config =
  dataDirectory :: string
  startingDonuts :: int
  initialDonutAmount :: int

section \<open>The session manager (src/lib/sessionManager.js)\<close>

text \<open>
  A session object. The first six fields are written by \<open>trackSession\<close>; \<open>action\<close>,
  \<open>timestamp\<close> and \<open>username\<close> are the keys the call sites pass as \<open>additionalData\<close>;
  \<open>visitingFriendId\<close> and \<open>visitStartTime\<close> are added by \<open>setVisitingFriend\<close>. An absent
  key is \<open>None\<close>. Times are \<open>Date.now()\<close> values (milliseconds), passed in as \<open>now\<close>.
\<close>

record session =
  userId :: string
  mayhemId :: string
  hostname :: string
  lastActive :: int
  connectedAt :: int
  sessionId :: string
  action :: "string option"
  timestamp :: "int option"
  username :: "string option"
  visitingFriendId :: "string option"
  visitStartTime :: "int option"

text \<open>
  \<open>additionalData\<close>: an object whose keys are spread last into the session literal
  (\<open>...additionalData\<close>), so a key of the same name as a field replaces that field.
\<close>

record additionalData =
  ad_userId :: "string option"
  ad_mayhemId :: "string option"
  ad_hostname :: "string option"
  ad_lastActive :: "int option"
  ad_connectedAt :: "int option"
  ad_sessionId :: "string option"
  ad_action :: "string option"
  ad_timestamp :: "int option"
  ad_username :: "string option"

type_synonym sessions = "string \<rightharpoonup> session"

text \<open>The default parameter \<open>additionalData = {}\<close>.\<close>

definition emptyData :: additionalData where
  "emptyData = \<lparr>ad_userId = None, ad_mayhemId = None, ad_hostname = None, ad_lastActive = None,
     ad_connectedAt = None, ad_sessionId = None, ad_action = None, ad_timestamp = None,
     ad_username = None\<rparr>"

text \<open>The constructor: \<open>activeSessions = new Map()\<close>, \<open>sessionTimeout = 5 * 60 * 1000\<close>.\<close>

definition noSessions :: sessions where
  "noSessions = Map.empty"

definition sessionTimeout :: int where
  "sessionTimeout = 5 * 60 * 1000"

definition spread :: "session \<Rightarrow> additionalData \<Rightarrow> session" where
  "spread s ad = s\<lparr>
     userId := (case ad_userId ad of Some v \<Rightarrow> v | None \<Rightarrow> userId s),
     mayhemId := (case ad_mayhemId ad of Some v \<Rightarrow> v | None \<Rightarrow> mayhemId s),
     hostname := (case ad_hostname ad of Some v \<Rightarrow> v | None \<Rightarrow> hostname s),
     lastActive := (case ad_lastActive ad of Some v \<Rightarrow> v | None \<Rightarrow> lastActive s),
     connectedAt := (case ad_connectedAt ad of Some v \<Rightarrow> v | None \<Rightarrow> connectedAt s),
     sessionId := (case ad_sessionId ad of Some v \<Rightarrow> v | None \<Rightarrow> sessionId s),
     action := ad_action ad,
     timestamp := ad_timestamp ad,
     username := ad_username ad\<rparr>"

text \<open>
  \<open>trackSession(userId, mayhemId, hostname, additionalData)\<close>. \<open>newId\<close> is the value
  \<open>_generateSessionId()\<close> would return (it depends on the clock and on \<open>Math.random\<close>).
  The result is the returned boolean and the updated map.
\<close>

definition trackSession ::
  "int \<Rightarrow> string \<Rightarrow> sessions \<Rightarrow> string \<Rightarrow> string \<Rightarrow> string \<Rightarrow> additionalData \<Rightarrow> bool \<times> sessions" where
  "trackSession now newId m uid mid host ad =
     (if uid = [] \<or> mid = [] then (False, m)
      else (True, m(uid \<mapsto> spread
        \<lparr>userId = uid, mayhemId = mid, hostname = host, lastActive = now,
         connectedAt = (case m uid of Some s \<Rightarrow> connectedAt s | None \<Rightarrow> now),
         sessionId = (case m uid of Some s \<Rightarrow> sessionId s | None \<Rightarrow> newId),
         action = None, timestamp = None, username = None,
         visitingFriendId = None, visitStartTime = None\<rparr> ad)))"

definition isSessionStale :: "int \<Rightarrow> session \<Rightarrow> bool" where
  "isSessionStale now s = (now - lastActive s > sessionTimeout)"

text \<open>\<open>getSession\<close> returns the session, or null; a stale session is deleted on the way.\<close>

definition getSession :: "int \<Rightarrow> sessions \<Rightarrow> string \<Rightarrow> session option \<times> sessions" where
  "getSession now m uid =
     (case m uid of
        None \<Rightarrow> (None, m)
      | Some s \<Rightarrow> if \<not> isSessionStale now s then (Some s, m) else (None, m(uid := None)))"

text \<open>
  The online flag of the dashboard's friend list (api.controller.js):
  \<open>isOnline: session ? true : false\<close> for \<open>session = sessionManager.getSession(...)\<close>.
\<close>

definition isOnline :: "int \<Rightarrow> sessions \<Rightarrow> string \<Rightarrow> bool" where
  "isOnline now m uid = (case fst (getSession now m uid) of None \<Rightarrow> False | Some s \<Rightarrow> True)"

definition updateActivity :: "int \<Rightarrow> sessions \<Rightarrow> string \<Rightarrow> bool \<times> sessions" where
  "updateActivity now m uid =
     (case m uid of
        None \<Rightarrow> (False, m)
      | Some s \<Rightarrow> (True, m(uid \<mapsto> s\<lparr>lastActive := now\<rparr>)))"

definition setVisitingFriend :: "int \<Rightarrow> sessions \<Rightarrow> string \<Rightarrow> string \<Rightarrow> bool \<times> sessions" where
  "setVisitingFriend now m uid friend =
     (case m uid of
        None \<Rightarrow> (False, m)
      | Some s \<Rightarrow> (True, m(uid \<mapsto> s\<lparr>visitingFriendId := Some friend, visitStartTime := Some now\<rparr>)))"

text \<open>The body of the cleanup timer: every stale session is deleted.\<close>

definition cleanupSweep :: "int \<Rightarrow> sessions \<Rightarrow> sessions" where
  "cleanupSweep now m =
     (\<lambda>uid. case m uid of
        None \<Rightarrow> None
      | Some s \<Rightarrow> if isSessionStale now s then None else Some s)"

text \<open>
  The two object literals the request handlers pass as \<open>additionalData\<close>:
  \<open>{ action: 'TokenRequest', timestamp: Date.now(), username: userData.UserName }\<close> and
  \<open>{ action: 'GetLand', timestamp: Date.now() }\<close>.
\<close>

definition tokenRequestData :: "int \<Rightarrow> string option \<Rightarrow> additionalData" where
  "tokenRequestData now name =
     emptyData\<lparr>ad_action := Some ''TokenRequest'', ad_timestamp := Some now, ad_username := name\<rparr>"

definition getLandData :: "int \<Rightarrow> additionalData" where
  "getLandData now = emptyData\<lparr>ad_action := Some ''GetLand'', ad_timestamp := Some now\<rparr>"

text \<open>
  A scenario for the session table: user \<open>7\<close> (Mayhem id \<open>42\<close>) requests a token at time
  1000 through host A, then is tracked again at time 2000 through host B with the
  \<open>GetLand\<close> metadata.
\<close>

definition trackedOnce :: sessions where
  "trackedOnce = snd (trackSession 1000 ''session_a'' noSessions ''7'' ''42'' ''hostA''
     (tokenRequestData 1000 (Some ''bart'')))"

definition trackedTwice :: sessions where
  "trackedTwice = snd (trackSession 2000 ''session_b'' trackedOnce ''7'' ''42'' ''hostB''
     (getLandData 2000))"

definition visiting :: sessions where
  "visiting = snd (setVisitingFriend 1500 trackedOnce ''7'' ''43'')"

definition trackedAfterVisit :: sessions where
  "trackedAfterVisit = snd (trackSession 2000 ''session_b'' visiting ''7'' ''42'' ''hostA''
     (tokenRequestData 2000 (Some ''bart'')))"

section \<open>The server state\<close>

text \<open>
  The state the handlers share: the two tables, the files under the data directory
  (a path maps to the file's contents; directories are not modelled, and a write to a
  path succeeds) and the session table.
\<close>

record server =
  users :: "user_row list"
  friends :: "friend_row list"
  files :: "string \<rightharpoonup> bytes"
  sessions :: sessions

section \<open>The friend routes\<close>

text \<open>
  In every route \<open>now\<close> is the value of \<open>Date.now()\<close> (milliseconds); a row is stamped
  with \<open>Math.floor(Date.now() / 1000)\<close>.
\<close>

text \<open>
  \<open>POST /:userId/invitations/outbound/:toUserId\<close> (invitations.controller.js): a
  request is stored unless a row exists for the pair in either direction.
\<close>

definition sendInvitation :: "int \<Rightarrow> server \<Rightarrow> string \<Rightarrow> string \<Rightarrow> response \<times> server" where
  "sendInvitation now st fromUserId toUserIdParam =
     (case getUserByIdParam (users st) fromUserId of
        None \<Rightarrow> (NoContent, st)
      | Some fromUser \<Rightarrow>
         (case getUserByIdParam (users st) toUserIdParam of
            None \<Rightarrow> (NoContent, st)
          | Some toUser \<Rightarrow>
             (case find (\<lambda>f.
                  (sqlEq (ownerMayhemId f) (MayhemId fromUser) \<and> sqlEq (friendMayhemId f) (MayhemId toUser))
                  \<or> (sqlEq (ownerMayhemId f) (MayhemId toUser) \<and> sqlEq (friendMayhemId f) (MayhemId fromUser)))
                (friends st) of
                Some existing \<Rightarrow> (NoContent, st)
              | None \<Rightarrow>
                 (NoContent, st\<lparr>friends := friends st @
                    [\<lparr>ownerMayhemId = MayhemId fromUser, friendMayhemId = MayhemId toUser,
                      status = ''pending'', createdAt = now div 1000\<rparr>]\<rparr>))))"

text \<open>
  \<open>POST /:userId/invitations/inbound/:fromUserId\<close>: the pending row of the sender is
  set to accepted; when a row changed, the reciprocal accepted row is inserted.
\<close>

definition acceptInvitation :: "int \<Rightarrow> server \<Rightarrow> string \<Rightarrow> string \<Rightarrow> response \<times> server" where
  "acceptInvitation now st userIdParam fromUserIdParam =
     (case getUserByIdParam (users st) userIdParam of
        None \<Rightarrow> (NoContent, st)
      | Some user \<Rightarrow>
         (case getUserByIdParam (users st) fromUserIdParam of
            None \<Rightarrow> (NoContent, st)
          | Some fromUser \<Rightarrow>
             (let pending = (\<lambda>f. sqlEq (ownerMayhemId f) (MayhemId fromUser)
                                \<and> sqlEq (friendMayhemId f) (MayhemId user) \<and> status f = ''pending'');
                  changes = length (filter pending (friends st));
                  updated = map (\<lambda>f. if pending f then f\<lparr>status := ''accepted''\<rparr> else f) (friends st)
              in if changes = 0 then (NoContent, st)
                 else (NoContent, st\<lparr>friends := updated @
                    [\<lparr>ownerMayhemId = MayhemId user, friendMayhemId = MayhemId fromUser,
                      status = ''accepted'', createdAt = now div 1000\<rparr>]\<rparr>))))"

text \<open>
  \<open>DELETE /:userId/friends/:friendId\<close>. In the WHERE clause AND binds tighter than OR:
  the row from the user to the friend is deleted whatever its status, the row from the
  friend to the user only when accepted. \<open>friendId\<close> is used as it stands in the URL.
\<close>

definition removeFriend :: "server \<Rightarrow> string \<Rightarrow> string \<Rightarrow> response \<times> server" where
  "removeFriend st userIdParam friendId =
     (case getUserByIdParam (users st) userIdParam of
        None \<Rightarrow> (Json 404 [(''error'', ''User not found'')], st)
      | Some user \<Rightarrow>
         (let doomed = (\<lambda>f.
                (sqlEq (ownerMayhemId f) (MayhemId user) \<and> sqlEq (friendMayhemId f) (Some friendId))
                \<or> (sqlEq (ownerMayhemId f) (Some friendId) \<and> sqlEq (friendMayhemId f) (MayhemId user)
                    \<and> status f = ''accepted''));
              changes = length (filter doomed (friends st))
          in if changes = 0 then (Json 404 [(''error'', ''Friend relationship not found'')], st)
             else (NoContent, st\<lparr>friends := filter (\<lambda>f. \<not> doomed f) (friends st)\<rparr>)))"

text \<open>
  \<open>POST /friend/invite\<close>, the legacy route: an existing row of the same direction is
  answered with status 409.
\<close>

definition friendInvite :: "int \<Rightarrow> server \<Rightarrow> body \<Rightarrow> response \<times> server" where
  "friendInvite now st b =
     (if \<not> truthy (b_fromId b) \<or> \<not> truthy (b_toId b)
      then (Json 400 [(''error'', ''Missing fromId or toId'')], st)
      else
        (case find (\<lambda>f. sqlEq (ownerMayhemId f) (b_fromId b) \<and> sqlEq (friendMayhemId f) (b_toId b))
            (friends st) of
           Some existing \<Rightarrow>
             (Json 409 [(''error'', ''Friend request already exists''), (''status'', status existing)], st)
         | None \<Rightarrow>
             (Json 200 [(''success'', ''true''), (''status'', ''pending'')],
              st\<lparr>friends := friends st @
                [\<lparr>ownerMayhemId = b_fromId b, friendMayhemId = b_toId b,
                  status = ''pending'', createdAt = now div 1000\<rparr>]\<rparr>)))"

text \<open>
  The routes of the identity proxy (src/unnamed/part_006). The caller is the account of
  the bearer token; its id is \<open>owner.MayhemId || String(owner.UserId)\<close>.
\<close>

definition authToken :: "headers \<Rightarrow> string option" where
  "authToken h = js_or (js_or (js_or (nucleus_token h) (mh_auth_params h)) (authorization h)) (x_auth_token h)"

definition callerId :: "user_row \<Rightarrow> string" where
  "callerId owner =
     (case MayhemId owner of
        None \<Rightarrow> StringOf (UserId owner)
      | Some m \<Rightarrow> if m = [] then StringOf (UserId owner) else m)"

text \<open>
  \<open>POST /invitations\<close>: an existing row from the caller to the target is answered with
  its status; otherwise a pending row is inserted. Only that direction is looked up.
\<close>

definition postInvitations :: "int \<Rightarrow> server \<Rightarrow> headers \<Rightarrow> body \<Rightarrow> response \<times> server" where
  "postInvitations now st h b =
     (case authToken h of
        None \<Rightarrow> (Json 401 [(''error'', ''No auth token'')], st)
      | Some reqToken \<Rightarrow>
         if reqToken = [] then (Json 401 [(''error'', ''No auth token'')], st)
         else
          (case userByToken (users st) reqToken of
             None \<Rightarrow> (Json 401 [(''error'', ''Invalid token'')], st)
           | Some owner \<Rightarrow>
              (let fromId = callerId owner;
                   toId = js_or (js_or (js_or (js_or (b_toId b) (b_friendMayhemId b)) (b_targetId b))
                            (b_personaId b)) (b_recipientId b)
               in if \<not> truthy toId then (Json 400 [(''error'', ''Missing target friend ID'')], st)
                  else
                   (case find (\<lambda>f. sqlEq (ownerMayhemId f) (Some fromId) \<and> sqlEq (friendMayhemId f) toId)
                       (friends st) of
                      Some existing \<Rightarrow>
                        (Json 200 [(''success'', ''true''), (''status'', status existing)], st)
                    | None \<Rightarrow>
                        (Json 200 [(''success'', ''true''), (''status'', ''pending'')],
                         st\<lparr>friends := friends st @
                           [\<lparr>ownerMayhemId = Some fromId, friendMayhemId = toId,
                             status = ''pending'', createdAt = now div 1000\<rparr>]\<rparr>)))))"

text \<open>
  \<open>POST /friends/confirmInvitation\<close>: one UPDATE sets every existing row between the
  two accounts to accepted; no row is inserted.
\<close>

definition confirmInvitation :: "server \<Rightarrow> headers \<Rightarrow> body \<Rightarrow> response \<times> server" where
  "confirmInvitation st h b =
     (case authToken h of
        None \<Rightarrow> (Json 401 [(''error'', ''No auth token'')], st)
      | Some reqToken \<Rightarrow>
         if reqToken = [] then (Json 401 [(''error'', ''No auth token'')], st)
         else
          (case userByToken (users st) reqToken of
             None \<Rightarrow> (Json 401 [(''error'', ''Invalid token'')], st)
           | Some owner \<Rightarrow>
              (let userId = callerId owner;
                   fromId = js_or (js_or (b_fromId b) (b_senderId b)) (b_friendId b)
               in if \<not> truthy fromId then (Json 400 [(''error'', ''Missing sender ID'')], st)
                  else
                   (Json 200 [(''success'', ''true''), (''status'', ''accepted'')],
                    st\<lparr>friends := map (\<lambda>f.
                        if (sqlEq (ownerMayhemId f) fromId \<and> sqlEq (friendMayhemId f) (Some userId))
                           \<or> (sqlEq (ownerMayhemId f) (Some userId) \<and> sqlEq (friendMayhemId f) fromId)
                        then f\<lparr>status := ''accepted''\<rparr> else f) (friends st)\<rparr>))))"

text \<open>
  A scenario for the friend routes: accounts \<open>42\<close> (token \<open>AT42\<close>) and \<open>43\<close> (token
  \<open>AT43\<close>), no friend rows, no files, no sessions.
\<close>

definition account :: "string \<Rightarrow> int \<Rightarrow> string \<Rightarrow> user_row" where
  "account mid uid tok = \<lparr>MayhemId = Some mid, UserId = Some uid, UserName = None,
     UserAccessToken = Some tok, WholeLandToken = None, LandSavePath = None,
     CurrencySavePath = None, LastPlayedTime = None\<rparr>"

definition twoAccounts :: server where
  "twoAccounts = \<lparr>users = [account ''42'' 1 ''AT42'', account ''43'' 2 ''AT43''],
     friends = [], files = Map.empty, sessions = noSessions\<rparr>"

definition bearer :: "string \<Rightarrow> headers" where
  "bearer tok = \<lparr>nucleus_token = Some tok, mh_auth_params = None, authorization = None,
     x_auth_token = None, land_update_token = None\<rparr>"

definition noBody :: body where
  "noBody = \<lparr>b_toId = None, b_friendMayhemId = None, b_targetId = None, b_personaId = None,
     b_recipientId = None, b_fromId = None, b_senderId = None, b_friendId = None\<rparr>"

text \<open>Account 43 asks 42 through \<open>POST /invitations\<close>.\<close>

definition requested :: server where
  "requested = snd (postInvitations 5000 twoAccounts (bearer ''AT43'') (noBody\<lparr>b_toId := Some ''42''\<rparr>))"

text \<open>Account 42 confirms through \<open>POST /friends/confirmInvitation\<close>.\<close>

definition confirmed :: server where
  "confirmed = snd (confirmInvitation requested (bearer ''AT42'') (noBody\<lparr>b_fromId := Some ''43''\<rparr>))"

section \<open>The land, event and currency routes\<close>

text \<open>The files of an account under the data directory.\<close>

definition landPath :: "config \<Rightarrow> string \<Rightarrow> string" where
  "landPath cfg ident = dataDirectory cfg @ ''/'' @ ident @ ''/'' @ ident @ ''.land''"

definition eventsPath :: "config \<Rightarrow> string \<Rightarrow> string" where
  "eventsPath cfg ident = dataDirectory cfg @ ''/'' @ ident @ ''/'' @ ident @ ''.events''"

definition currencyPath :: "config \<Rightarrow> string \<Rightarrow> string" where
  "currencyPath cfg ident = dataDirectory cfg @ ''/'' @ ident @ ''/'' @ ident @ ''.currency''"

text \<open>
  \<open>fs.readFile(path)\<close>: it throws (\<open>None\<close>) for a null path, for the empty path and for
  a path with no file.
\<close>

definition readFile :: "(string \<rightharpoonup> bytes) \<Rightarrow> string option \<Rightarrow> bytes option" where
  "readFile fs p = (case p of None \<Rightarrow> None | Some q \<Rightarrow> if q = [] then None else fs q)"

text \<open>The bearer token of a game request: \<open>nucleus_token || mh_auth_params\<close>.\<close>

definition gameToken :: "headers \<Rightarrow> string option" where
  "gameToken h = js_or (nucleus_token h) (mh_auth_params h)"

text \<open>Truthiness of a nullable number: null and 0 are falsy.\<close>

definition truthyInt :: "int option \<Rightarrow> bool" where
  "truthyInt v = (case v of None \<Rightarrow> False | Some i \<Rightarrow> i \<noteq> 0)"

subsection \<open>The save token\<close>

text \<open>
  \<open>POST /bg_gameserver_plugin/protoWholeLandToken/:mayhemId\<close>: the owner is tracked,
  and a fresh token (\<open>uuid\<close>, the value of \<open>uuidv4()\<close>) replaces the stored one.
\<close>

definition protoWholeLandToken ::
  "int \<Rightarrow> string \<Rightarrow> string \<Rightarrow> server \<Rightarrow> string \<Rightarrow> string \<Rightarrow> headers \<Rightarrow> response \<times> server" where
  "protoWholeLandToken now newId uuid st mayhemIdParam host h =
     (case gameToken h of
        None \<Rightarrow> (ErrorXml 400 ''MISSING_VALUE'' ''nucleus_token'', st)
      | Some reqToken \<Rightarrow>
         if reqToken = [] then (ErrorXml 400 ''MISSING_VALUE'' ''nucleus_token'', st)
         else
          (case userByMayhemId (users st) mayhemIdParam of
             None \<Rightarrow> (ErrorXml 404 ''NOT_FOUND'' ''mayhemId'', st)
           | Some userData \<Rightarrow>
              if UserAccessToken userData \<noteq> Some reqToken
              then (ErrorXml 400 ''BAD_REQUEST'' ''Invalid AccessToken for specified MayhemId'', st)
              else
               (let st1 =
                     (if mayhemIdParam \<noteq> [] \<and> truthyInt (UserId userData)
                      then st\<lparr>sessions := snd (trackSession now newId (sessions st)
                                 (StringOf (UserId userData)) mayhemIdParam host
                                 (tokenRequestData now (UserName userData))),
                              users := map (\<lambda>u. if MayhemId u = Some mayhemIdParam
                                 then u\<lparr>LastPlayedTime := Some now\<rparr> else u) (users st)\<rparr>
                      else st);
                    st2 = st1\<lparr>users := map (\<lambda>u. if MayhemId u = Some mayhemIdParam
                                 then u\<lparr>WholeLandToken := Some uuid\<rparr> else u) (users st1)\<rparr>
                in (WholeLandTokenResponse (Some uuid) ''0'', st2))))"

subsection \<open>The event mailbox\<close>

text \<open>\<open>clearEventsFile(mayhemsId)\<close>: the events file is deleted when it exists.\<close>

definition clearEventsFile :: "config \<Rightarrow> server \<Rightarrow> string \<Rightarrow> server" where
  "clearEventsFile cfg st mayhemsId =
     (case files st (eventsPath cfg mayhemsId) of
        None \<Rightarrow> st
      | Some d \<Rightarrow> st\<lparr>files := (files st)(eventsPath cfg mayhemsId := None)\<rparr>)"

text \<open>
  \<open>GET /bg_gameserver_plugin/event/:friendId/protoland/\<close> (the first handler registered
  for the path; it answers every request, so the second handler of the same path is
  never reached). A readable events file is sent as stored; otherwise the answer is an
  empty events message.
\<close>

definition getEvents :: "protobuf \<Rightarrow> config \<Rightarrow> server \<Rightarrow> string \<Rightarrow> response \<times> server" where
  "getEvents pb cfg st friendIdParam =
     (case files st (eventsPath cfg friendIdParam) of
        None \<Rightarrow> (EventsMessageResponse [], st)
      | Some eventsData \<Rightarrow>
         (case decodeEventsMessage pb eventsData of
            None \<Rightarrow> (EventsMessageResponse [], st)
          | Some decoded \<Rightarrow> (EventsBytes eventsData, st)))"

text \<open>
  The events a handler loads from an owner's file: none when the file is missing or
  does not decode.
\<close>

definition loadEvents :: "protobuf \<Rightarrow> config \<Rightarrow> server \<Rightarrow> string \<Rightarrow> event_message list" where
  "loadEvents pb cfg st owner =
     (case files st (eventsPath cfg owner) of
        None \<Rightarrow> []
      | Some d \<Rightarrow> (case decodeEventsMessage pb d of None \<Rightarrow> [] | Some es \<Rightarrow> es))"

text \<open>
  The target of a posted event, \<open>eventMessage.toPlayerId || toPlayerId\<close>, and the event
  as it is stored: a fresh id, sender and target filled in, the display name set.
\<close>

definition actualOwnerId :: "string \<Rightarrow> event_message \<Rightarrow> string" where
  "actualOwnerId toPlayerIdParam m = (if toPlayerId m \<noteq> [] then toPlayerId m else toPlayerIdParam)"

definition visitorName :: "event_message \<Rightarrow> string" where
  "visitorName m =
     (case eventData m of
        None \<Rightarrow> ''Visitor''
      | Some d \<Rightarrow> if displayName d \<noteq> [] then displayName d else ''Visitor'')"

definition stampEvent :: "string \<Rightarrow> string \<Rightarrow> event_message \<Rightarrow> event_message" where
  "stampEvent uuid toPlayerIdParam m =
     m\<lparr>eventId := uuid,
       fromPlayerId := (if fromPlayerId m \<noteq> [] then fromPlayerId m else toPlayerIdParam),
       toPlayerId := actualOwnerId toPlayerIdParam m,
       eventData := Some ((case eventData m of
            None \<Rightarrow> \<lparr>displayName = [], displayNameLen = 0, dataRest = []\<rparr>
          | Some d \<Rightarrow> d)\<lparr>displayName := visitorName m, displayNameLen := length (visitorName m)\<rparr>)\<rparr>"

text \<open>
  \<open>POST /bg_gameserver_plugin/event/:toPlayerId/protoland/\<close>: the event is appended to
  the target's events file; a file that does not decode is started afresh.
\<close>

definition postEvent ::
  "protobuf \<Rightarrow> config \<Rightarrow> string \<Rightarrow> server \<Rightarrow> string \<Rightarrow> headers \<Rightarrow> bytes \<Rightarrow> response \<times> server" where
  "postEvent pb cfg uuid st toPlayerIdParam h reqBody =
     (case gameToken h of
        None \<Rightarrow> (ErrorXml 400 ''MISSING_VALUE'' ''nucleus_token'', st)
      | Some reqToken \<Rightarrow>
         if reqToken = [] then (ErrorXml 400 ''MISSING_VALUE'' ''nucleus_token'', st)
         else
          (case decodeEventMessage pb reqBody of
             None \<Rightarrow> (LandUpdateResponse, st)
           | Some eventMessage \<Rightarrow>
              (let owner = actualOwnerId toPlayerIdParam eventMessage;
                   stored = loadEvents pb cfg st owner @ [stampEvent uuid toPlayerIdParam eventMessage]
               in (LandUpdateResponse,
                   st\<lparr>files := (files st)(eventsPath cfg owner \<mapsto> encodeEventsMessage pb stored)\<rparr>))))"

text \<open>
  A sequence of posted events, run in order. A request is the fresh event id, the
  \<open>toPlayerId\<close> of the URL, the headers and the body.
\<close>

record event_request =
  er_uuid :: string
  er_toPlayerId :: string
  er_headers :: headers
  er_body :: bytes

fun postEvents :: "protobuf \<Rightarrow> config \<Rightarrow> server \<Rightarrow> event_request list \<Rightarrow> server" where
  "postEvents pb cfg st [] = st"
| "postEvents pb cfg st (r # rs) =
     postEvents pb cfg
       (snd (postEvent pb cfg (er_uuid r) st (er_toPlayerId r) (er_headers r) (er_body r))) rs"

text \<open>
  A request enqueues for owner \<open>O\<close> when it carries a token and its body decodes to an
  event whose target is \<open>O\<close>; \<open>envelopes\<close> are the events the requests store, in order.
\<close>

definition enqueuesFor :: "protobuf \<Rightarrow> string \<Rightarrow> event_request \<Rightarrow> bool" where
  "enqueuesFor pb owner r =
     (truthy (gameToken (er_headers r)) \<and>
      (case decodeEventMessage pb (er_body r) of
         None \<Rightarrow> False
       | Some m \<Rightarrow> actualOwnerId (er_toPlayerId r) m = owner))"

definition envelopes :: "protobuf \<Rightarrow> event_request list \<Rightarrow> event_message list" where
  "envelopes pb rs =
     concat (map (\<lambda>r. case decodeEventMessage pb (er_body r) of
        None \<Rightarrow> []
      | Some m \<Rightarrow> [stampEvent (er_uuid r) (er_toPlayerId r) m]) rs)"

text \<open>The codec reads back an events message it wrote.\<close>

definition roundTrips :: "protobuf \<Rightarrow> event_message list \<Rightarrow> bool" where
  "roundTrips pb es = (decodeEventsMessage pb (encodeEventsMessage pb es) = Some es)"

subsection \<open>The land document\<close>

text \<open>
  \<open>PUT /bg_gameserver_plugin/protoland/:landId\<close>. The handler reads the
  \<open>land-update-token\<close> header into \<open>wholeLandToken\<close> and never uses it.
\<close>

definition putLand :: "config \<Rightarrow> server \<Rightarrow> string \<Rightarrow> headers \<Rightarrow> bytes \<Rightarrow> response \<times> server" where
  "putLand cfg st landIdParam h reqBody =
     (case gameToken h of
        None \<Rightarrow> (ErrorXml 400 ''MISSING_VALUE'' ''nucleus_token'', st)
      | Some reqToken \<Rightarrow>
         if reqToken = [] then (ErrorXml 400 ''MISSING_VALUE'' ''nucleus_token'', st)
         else
          (case userByMayhemId (users st) landIdParam of
             None \<Rightarrow> (ErrorXml 404 ''NOT_FOUND'' ''mayhemId'', st)
           | Some userData \<Rightarrow>
              if UserAccessToken userData \<noteq> Some reqToken
              then (ErrorXml 400 ''BAD_REQUEST'' ''Invalid AccessToken for specified MayhemId'', st)
              else
               (let registered = truthy (LandSavePath userData);
                    savePath = (case LandSavePath userData of
                        None \<Rightarrow> landPath cfg landIdParam
                      | Some p \<Rightarrow> if p = [] then landPath cfg landIdParam else p);
                    st1 = (if registered then st
                           else st\<lparr>users := map (\<lambda>u. if MayhemId u = Some landIdParam
                                  then u\<lparr>LandSavePath := Some savePath\<rparr> else u) (users st)\<rparr>);
                    st2 = st1\<lparr>files := (files st1)(savePath \<mapsto> reqBody)\<rparr>
                in (LandUpdateResponse, clearEventsFile cfg st2 landIdParam))))"

text \<open>\<open>POST /bg_gameserver_plugin/protoland/:landId\<close> has the same body as the PUT handler.\<close>

definition postLand :: "config \<Rightarrow> server \<Rightarrow> string \<Rightarrow> headers \<Rightarrow> bytes \<Rightarrow> response \<times> server" where
  "postLand = putLand"

text \<open>
  The friends a visited land lists: the senders of the owner's queued events, each
  once, in the order of their first event (\<open>new Set()\<close>, \<open>Array.from\<close>).
\<close>

definition uniqueVisitors :: "event_message list \<Rightarrow> string list" where
  "uniqueVisitors es = foldl (\<lambda>acc e. if fromPlayerId e \<in> set acc then acc else acc @ [fromPlayerId e]) [] es"

definition visitorEntry :: "string \<Rightarrow> friend_list_entry" where
  "visitorEntry visitorId = \<lparr>headerId = 0, friendID = visitorId, hasBeenVisited = True,
     hideInMap = False, isOrigin = False\<rparr>"

text \<open>
  The row the land query returns: it selects \<open>UserAccessToken\<close>, \<open>WholeLandToken\<close>,
  \<open>LandSavePath\<close> and \<open>MayhemId\<close>, so every other column of \<open>userData\<close> is undefined.
\<close>

definition landQueryRow :: "user_row \<Rightarrow> user_row" where
  "landQueryRow u = u\<lparr>UserId := None, UserName := None, CurrencySavePath := None, LastPlayedTime := None\<rparr>"

text \<open>
  The Mayhem id of the account the bearer token belongs to
  (\<open>requestingUserMayhemId\<close>, null when no account has the token), and the Mayhem id of
  the land's owner (\<open>userData.MayhemId ? userData.MayhemId.toString() : landId\<close>).
\<close>

definition requesterMayhemId :: "user_row list \<Rightarrow> string \<Rightarrow> string option" where
  "requesterMayhemId us reqToken =
     (case userByToken us reqToken of
        None \<Rightarrow> None
      | Some r \<Rightarrow> if truthy (MayhemId r) then MayhemId r else None)"

definition landOwnerId :: "user_row \<Rightarrow> string \<Rightarrow> string" where
  "landOwnerId userData landIdParam =
     (case MayhemId userData of
        None \<Rightarrow> landIdParam
      | Some m \<Rightarrow> if m = [] then landIdParam else m)"

text \<open>
  \<open>GET /bg_gameserver_plugin/protoland/:landId\<close>, in the order of the handler: the
  session of the requester is refreshed (\<open>refreshRequester\<close>), the owner's row is looked
  up, the owner's session is tracked (\<open>trackOwner\<close>), and the land is served
  (\<open>serveLand\<close>). \<open>newId\<close> and \<open>host\<close> are what \<open>trackSession\<close> would be given.
\<close>

definition refreshRequester :: "int \<Rightarrow> server \<Rightarrow> string \<Rightarrow> server" where
  "refreshRequester now st reqToken =
     (case userByToken (users st) reqToken of
        None \<Rightarrow> st
      | Some r \<Rightarrow>
         if truthyInt (UserId r) \<and> truthy (requesterMayhemId (users st) reqToken)
         then st\<lparr>sessions := snd (updateActivity now (sessions st) (StringOf (UserId r)))\<rparr>
         else st)"

definition trackOwner ::
  "int \<Rightarrow> string \<Rightarrow> server \<Rightarrow> string \<Rightarrow> string \<Rightarrow> string \<Rightarrow> user_row \<Rightarrow> server" where
  "trackOwner now newId st landIdParam host reqToken userData =
     (if UserAccessToken userData = Some reqToken \<and> truthy (MayhemId userData)
         \<and> truthyInt (UserId userData)
      then st\<lparr>sessions := snd (trackSession now newId (sessions st)
                 (StringOf (UserId userData)) (landOwnerId userData landIdParam) host (getLandData now)),
              users := map (\<lambda>u. if sqlEq (MayhemId u) (MayhemId userData)
                 then u\<lparr>LastPlayedTime := Some now\<rparr> else u) (users st)\<rparr>
      else st)"

definition serveLand ::
  "protobuf \<Rightarrow> config \<Rightarrow> server \<Rightarrow> string \<Rightarrow> string \<Rightarrow> string option \<Rightarrow> user_row \<Rightarrow> response" where
  "serveLand pb cfg st landIdParam reqToken requestingUserMayhemId userData =
     (let landOwnerMayhemId = landOwnerId userData landIdParam;
          isOwnLand = (UserAccessToken userData = Some reqToken);
          isFriend = (\<not> isOwnLand \<and> truthy requestingUserMayhemId
                      \<and> isAccepted (friends st) requestingUserMayhemId (Some landOwnerMayhemId))
      in if \<not> isOwnLand \<and> \<not> isFriend
         then ErrorXml 400 ''BAD_REQUEST'' ''Invalid AcessToken for specified MayhemId''
         else if \<not> truthy (LandSavePath userData)
         then ErrorXml 404 ''NO_SUCH_RESOURCE'' ''LAND_NOT_FOUND''
         else
          (case readFile (files st) (LandSavePath userData) of
             None \<Rightarrow> ErrorXml 404 ''NO_SUCH_RESOURCE'' ''LAND_NOT_FOUND''
           | Some serializedSaveData \<Rightarrow>
              if length serializedSaveData = 0
              then ErrorXml 404 ''NO_SUCH_RESOURCE'' ''LAND_NOT_FOUND''
              else
               (case decodeLandMessage pb serializedSaveData of
                  None \<Rightarrow> InternalError
                | Some decodedMessage \<Rightarrow>
                   LandMessageResponse
                     (if \<not> isOwnLand \<and> isFriend \<and> truthy requestingUserMayhemId
                      then decodedMessage\<lparr>landId := landIdParam,
                             friendListData := map visitorEntry
                               (uniqueVisitors (loadEvents pb cfg st landOwnerMayhemId))\<rparr>
                      else decodedMessage\<lparr>landId := landIdParam\<rparr>))))"

definition getLand ::
  "protobuf \<Rightarrow> config \<Rightarrow> int \<Rightarrow> string \<Rightarrow> server \<Rightarrow> string \<Rightarrow> string \<Rightarrow> headers \<Rightarrow> response \<times> server" where
  "getLand pb cfg now newId st landIdParam host h =
     (case gameToken h of
        None \<Rightarrow> (ErrorXml 400 ''MISSING_VALUE'' ''nucleus_token'', st)
      | Some reqToken \<Rightarrow>
         if reqToken = [] then (ErrorXml 400 ''MISSING_VALUE'' ''nucleus_token'', st)
         else
          (let requestingUserMayhemId = requesterMayhemId (users st) reqToken;
               st1 = refreshRequester now st reqToken
           in case map_option landQueryRow (getUserByIdParam (users st1) landIdParam) of
                None \<Rightarrow>
                  (LandMessageResponse \<lparr>landId = landIdParam, friendListData = [], landRest = []\<rparr>, st1)
              | Some userData \<Rightarrow>
                 (let st2 = trackOwner now newId st1 landIdParam host reqToken userData
                  in (serveLand pb cfg st2 landIdParam reqToken requestingUserMayhemId userData, st2))))"

subsection \<open>The currency ledger\<close>

text \<open>
  \<open>ensureCurrencyFile(landId, savePath, startingAmount)\<close>: a missing or empty file is
  replaced by a record seeded with the starting amount.
\<close>

definition ensureCurrencyFile ::
  "protobuf \<Rightarrow> int \<Rightarrow> (string \<rightharpoonup> bytes) \<Rightarrow> string \<Rightarrow> string \<Rightarrow> int \<Rightarrow> (string \<rightharpoonup> bytes)" where
  "ensureCurrencyFile pb now fs landIdParam savePath startingAmount =
     (let fresh = fs(savePath \<mapsto> encodeCurrencyData pb
            \<lparr>currencyId = landIdParam, vcTotalPurchased = 0, vcTotalAwarded = startingAmount,
             vcBalance = startingAmount, currencyCreatedAt = 1715911362, updatedAt = now\<rparr>)
      in case fs savePath of
           None \<Rightarrow> fresh
         | Some d \<Rightarrow> if length d > 0 then fs else fresh)"

text \<open>
  \<open>GET /bg_gameserver_plugin/protocurrency/:landId\<close>: an account with no registered
  currency path gets the default path, which is written to its row; the file is seeded
  when missing or empty, and the bytes at \<open>savePath\<close> are sent.
\<close>

definition getCurrency ::
  "protobuf \<Rightarrow> config \<Rightarrow> int \<Rightarrow> server \<Rightarrow> string \<Rightarrow> headers \<Rightarrow> response \<times> server" where
  "getCurrency pb cfg now st landIdParam h =
     (case gameToken h of
        None \<Rightarrow> (ErrorXml 400 ''MISSING_VALUE'' ''nucleus_token'', st)
      | Some reqToken \<Rightarrow>
         if reqToken = [] then (ErrorXml 400 ''MISSING_VALUE'' ''nucleus_token'', st)
         else
          (case userByMayhemId (users st) landIdParam of
             None \<Rightarrow> (ErrorXml 404 ''NOT_FOUND'' ''mayhemId'', st)
           | Some userData \<Rightarrow>
              if UserAccessToken userData \<noteq> Some reqToken
              then (ErrorXml 400 ''BAD_REQUEST'' ''Invalid AcessToken for specified MayhemId'', st)
              else
               (let registered = truthy (CurrencySavePath userData);
                    savePath = (case CurrencySavePath userData of
                        None \<Rightarrow> currencyPath cfg landIdParam
                      | Some p \<Rightarrow> if p = [] then currencyPath cfg landIdParam else p);
                    st1 = (if registered then st
                           else st\<lparr>users := map (\<lambda>u. if MayhemId u = Some landIdParam
                                  then u\<lparr>CurrencySavePath := Some savePath\<rparr> else u) (users st)\<rparr>);
                    st2 = st1\<lparr>files := ensureCurrencyFile pb now (files st1) landIdParam savePath
                                 (initialDonutAmount cfg)\<rparr>
                in case readFile (files st2) (Some savePath) of
                     None \<Rightarrow> (NextError, st2)
                   | Some currencyFile \<Rightarrow> (CurrencyBytes currencyFile, st2))))"

text \<open>
  \<open>POST /bg_gameserver_plugin/extraLandUpdate/:landId/protoland/\<close>. A
  \<open>land-update-token\<close> that differs from the stored one is logged and the update goes on.
  The currency record is read from and written to \<open>userData.CurrencySavePath\<close>, the path
  as the row held it when the request came in.
\<close>

definition extraLandUpdate ::
  "protobuf \<Rightarrow> config \<Rightarrow> int \<Rightarrow> server \<Rightarrow> string \<Rightarrow> headers \<Rightarrow> bytes \<Rightarrow> response \<times> server" where
  "extraLandUpdate pb cfg now st landIdParam h reqBody =
     (case gameToken h of
        None \<Rightarrow> (ErrorXml 400 ''MISSING_VALUE'' ''nucleus_token'', st)
      | Some reqToken \<Rightarrow>
         if reqToken = [] then (ErrorXml 400 ''MISSING_VALUE'' ''nucleus_token'', st)
         else
          (case userByMayhemId (users st) landIdParam of
             None \<Rightarrow> (ErrorXml 404 ''NOT_FOUND'' ''mayhemId'', st)
           | Some userData \<Rightarrow>
              if UserAccessToken userData \<noteq> Some reqToken
              then (ErrorXml 400 ''BAD_REQUEST'' ''Invalid AcessToken for specified MayhemId'', st)
              else
               (let registered = truthy (CurrencySavePath userData);
                    savePath = (case CurrencySavePath userData of
                        None \<Rightarrow> currencyPath cfg landIdParam
                      | Some p \<Rightarrow> if p = [] then currencyPath cfg landIdParam else p);
                    st1 = (if registered then st
                           else st\<lparr>users := map (\<lambda>u. if MayhemId u = Some landIdParam
                                  then u\<lparr>CurrencySavePath := Some savePath\<rparr> else u) (users st)\<rparr>);
                    st2 = st1\<lparr>files := ensureCurrencyFile pb now (files st1) landIdParam savePath
                                 (startingDonuts cfg)\<rparr>
                in case decodeExtraLandMessage pb reqBody of
                     None \<Rightarrow> (NextError, st2)
                   | Some decodedMessage \<Rightarrow>
                      (case readFile (files st2) (CurrencySavePath userData) of
                         None \<Rightarrow> (NextError, st2)
                       | Some currencyFile \<Rightarrow>
                          (case decodeCurrencyData pb currencyFile of
                             None \<Rightarrow> (NextError, st2)
                           | Some decodedCurrencyData \<Rightarrow>
                              (let donutDelta = foldl (\<lambda>acc cd. acc + amount cd) 0
                                     (currencyDelta decodedMessage);
                                   processedCurrencyDelta = map deltaId (currencyDelta decodedMessage);
                                   newTotal = vcTotalAwarded decodedCurrencyData + donutDelta;
                                   newContent = \<lparr>currencyId = currencyId decodedCurrencyData,
                                      vcTotalPurchased = vcTotalPurchased decodedCurrencyData,
                                      vcTotalAwarded = newTotal, vcBalance = newTotal,
                                      currencyCreatedAt = 1715911362, updatedAt = now\<rparr>;
                                   storedPath = (case CurrencySavePath userData of
                                      None \<Rightarrow> [] | Some p \<Rightarrow> p);
                                   st3 = st2\<lparr>files := (files st2)(storedPath \<mapsto>
                                      encodeCurrencyData pb newContent)\<rparr>;
                                   st4 = (if truthyInt (UserId userData)
                                          then st3\<lparr>sessions := snd (updateActivity now (sessions st3)
                                                 (StringOf (UserId userData)))\<rparr>
                                          else st3)
                               in (ExtraLandResponse processedCurrencyDelta, st4)))))))"

section \<open>A codec and a server to run the handlers on\<close>

text \<open>
  A small stand-in for the protobuf types: an events file holds one byte per event
  (the length of the event's id); every posted event body is a visit of account 43 to
  account 42; a currency file holds the three totals as bytes (and not the id); an
  update body holds one byte per currency delta (its id and its amount); a land file
  decodes to a message that carries the bytes.
\<close>

definition toyEvent :: "nat \<Rightarrow> event_message" where
  "toyEvent n = \<lparr>eventId = replicate n (CHR ''x''), fromPlayerId = ''43'', toPlayerId = ''42'',
     eventData = Some \<lparr>displayName = ''Visitor'', displayNameLen = 7, dataRest = []\<rparr>,
     eventRest = []\<rparr>"

definition toyPb :: protobuf where
  "toyPb = \<lparr>
     decodeEventMessage = (\<lambda>bs. Some \<lparr>eventId = [], fromPlayerId = ''43'', toPlayerId = ''42'',
        eventData = None, eventRest = []\<rparr>),
     decodeEventsMessage = (\<lambda>bs. Some (map (\<lambda>b. toyEvent (unat b)) bs)),
     encodeEventsMessage = (\<lambda>es. map (\<lambda>e. of_nat (length (eventId e))) es),
     decodeLandMessage = (\<lambda>bs. Some \<lparr>landId = [], friendListData = [], landRest = bs\<rparr>),
     decodeCurrencyData = (\<lambda>bs. case bs of
        [p, a, b] \<Rightarrow> Some \<lparr>currencyId = ''42'', vcTotalPurchased = uint p, vcTotalAwarded = uint a,
           vcBalance = uint b, currencyCreatedAt = 1715911362, updatedAt = 0\<rparr>
      | _ \<Rightarrow> None),
     encodeCurrencyData = (\<lambda>c. [word_of_int (vcTotalPurchased c), word_of_int (vcTotalAwarded c),
        word_of_int (vcBalance c)]),
     decodeExtraLandMessage = (\<lambda>bs. Some \<lparr>currencyDelta = map (\<lambda>b. \<lparr>deltaId = uint b, amount = uint b\<rparr>) bs,
        extraRest = []\<rparr>)\<rparr>"

definition demoConfig :: config where
  "demoConfig = \<lparr>dataDirectory = ''data'', startingDonuts = 20, initialDonutAmount = 20\<rparr>"

text \<open>
  Account 42 (user id 7, token \<open>AT42\<close>) has a saved land of two bytes and a currency
  record with nothing purchased, 10 awarded and balance 10; account 43 (user id 8, token
  \<open>AT43\<close>) is new: its land file is the empty placeholder and it has no currency path.
  There are no friend rows and no sessions.
\<close>

definition owner42 :: user_row where
  "owner42 = \<lparr>MayhemId = Some ''42'', UserId = Some 7, UserName = Some ''bart'',
     UserAccessToken = Some ''AT42'', WholeLandToken = None,
     LandSavePath = Some ''data/42/42.land'', CurrencySavePath = Some ''data/42/42.currency'',
     LastPlayedTime = None\<rparr>"

definition newcomer43 :: user_row where
  "newcomer43 = \<lparr>MayhemId = Some ''43'', UserId = Some 8, UserName = Some ''lisa'',
     UserAccessToken = Some ''AT43'', WholeLandToken = None,
     LandSavePath = Some ''data/43/43.land'', CurrencySavePath = None,
     LastPlayedTime = None\<rparr>"

definition demoFiles :: "string \<rightharpoonup> bytes" where
  "demoFiles = [''data/42/42.land'' \<mapsto> [0xAA, 0xBB], ''data/42/42.currency'' \<mapsto> [0, 10, 10],
     ''data/43/43.land'' \<mapsto> []]"

definition demoServer :: server where
  "demoServer = \<lparr>users = [owner42, newcomer43], friends = [], files = demoFiles,
     sessions = noSessions\<rparr>"

definition withToken :: "string \<Rightarrow> string \<Rightarrow> headers" where
  "withToken tok saveToken = (bearer tok)\<lparr>land_update_token := Some saveToken\<rparr>"

text \<open>
  Save tokens: account 42 is issued \<open>T1\<close>, saves presenting \<open>T1\<close>, saves again presenting
  \<open>T1\<close>, is issued \<open>T2\<close>, and saves once more presenting the replaced \<open>T1\<close>.
\<close>

definition issuedT1 :: server where
  "issuedT1 = snd (protoWholeLandToken 1000 ''session_a'' ''T1'' demoServer ''42'' ''hostA'' (bearer ''AT42''))"

definition savedOnce :: "response \<times> server" where
  "savedOnce = putLand demoConfig issuedT1 ''42'' (withToken ''AT42'' ''T1'') [0x01]"

definition savedTwice :: "response \<times> server" where
  "savedTwice = putLand demoConfig (snd savedOnce) ''42'' (withToken ''AT42'' ''T1'') [0x02]"

definition issuedT2 :: server where
  "issuedT2 = snd (protoWholeLandToken 3000 ''session_b'' ''T2'' (snd savedTwice) ''42'' ''hostA'' (bearer ''AT42''))"

definition savedStale :: "response \<times> server" where
  "savedStale = putLand demoConfig issuedT2 ''42'' (withToken ''AT42'' ''T1'') [0x03]"

text \<open>
  The mailbox: three events are posted to account 42, and the owner then saves.
\<close>

definition visit :: "nat \<Rightarrow> event_request" where
  "visit n = \<lparr>er_uuid = replicate n (CHR ''x''), er_toPlayerId = ''42'', er_headers = bearer ''AT43'',
     er_body = [of_nat n]\<rparr>"

definition threeVisits :: "event_request list" where
  "threeVisits = [visit 1, visit 2, visit 3]"

definition visited :: server where
  "visited = postEvents toyPb demoConfig demoServer threeVisits"

definition savedAfterVisits :: "response \<times> server" where
  "savedAfterVisits = putLand demoConfig visited ''42'' (bearer ''AT42'') [0x04]"

text \<open>
  The ledger: account 44 is new, as the sign-up leaves it when it has initialised the
  player's files: both paths are registered and both files are empty. Account 45 is a
  row as the sign-up inserts it when the initialisation of the files failed after the
  directory was made: both paths are NULL and the account has no file. Each account
  sends the deltas 3 and 4, and account 45 sends them again after the answer.
\<close>

definition fresh44 :: user_row where
  "fresh44 = \<lparr>MayhemId = Some ''44'', UserId = Some 9, UserName = None,
     UserAccessToken = Some ''AT44'', WholeLandToken = None,
     LandSavePath = Some ''data/44/44.land'', CurrencySavePath = Some ''data/44/44.currency'',
     LastPlayedTime = None\<rparr>"

definition unregistered45 :: user_row where
  "unregistered45 = \<lparr>MayhemId = Some ''45'', UserId = Some 10, UserName = None,
     UserAccessToken = Some ''AT45'', WholeLandToken = None,
     LandSavePath = None, CurrencySavePath = None, LastPlayedTime = None\<rparr>"

definition ledgerServer :: server where
  "ledgerServer = \<lparr>users = [fresh44, unregistered45], friends = [],
     files = [''data/44/44.land'' \<mapsto> [], ''data/44/44.currency'' \<mapsto> []], sessions = noSessions\<rparr>"

definition firstUpdate45 :: "response \<times> server" where
  "firstUpdate45 = extraLandUpdate toyPb demoConfig 2000 ledgerServer ''45'' (bearer ''AT45'') [3, 4]"

definition secondUpdate45 :: "response \<times> server" where
  "secondUpdate45 = extraLandUpdate toyPb demoConfig 2100 (snd firstUpdate45) ''45'' (bearer ''AT45'') [3, 4]"

definition firstUpdate44 :: "response \<times> server" where
  "firstUpdate44 = extraLandUpdate toyPb demoConfig 2000 ledgerServer ''44'' (bearer ''AT44'') [3, 4]"

text \<open>
  Friendship for the land scenario: account 43 asks 42 through the outbound route and
  42 accepts through the inbound route.
\<close>

definition befriended :: server where
  "befriended = snd (acceptInvitation 7000 (snd (sendInvitation 6000 demoServer ''43'' ''42'')) ''42'' ''43'')"

section \<open>The account lookup\<close>

text \<open>
  A user id is matched by value, not by its decimal text, and a text that is no number
  matches none.
\<close>

lemma sqlEqInt_by_value:
  "sqlEqInt (Some 3) ''3'' \<and> sqlEqInt (Some 3) ''03'' \<and> sqlEqInt (Some 3) ''3.0''
   \<and> sqlEqInt (Some 3) '' 3'' \<and> sqlEqInt (Some 3) ''+3'' \<and> sqlEqInt (Some 3) ''30e-1''
   \<and> sqlEqInt (Some (- 5)) ''-5'' \<and> sqlEqInt (Some 1000) ''1e3''
   \<and> sqlEqInt (Some 3) ''3abc'' = False \<and> sqlEqInt (Some 3) ''0x3'' = False
   \<and> sqlEqInt (Some 3) ''3.5'' = False \<and> sqlEqInt (Some 1) ''1e'' = False
   \<and> sqlEqInt (Some 0) [] = False \<and> sqlEqInt None ''3'' = False"
  by code_simp

text \<open>
  The lookup by \<open>MayhemId = ? OR UserId = ?\<close> answers with the account whose
  \<open>MayhemId\<close> is the value, also when an earlier row has the value as its user id; the
  user id decides only when no \<open>MayhemId\<close> matches.
\<close>

lemma getUserByIdParam_by_MayhemId:
  "find (\<lambda>u. MayhemId u = Some p) us = Some u \<Longrightarrow> getUserByIdParam us p = Some u"
  by (simp add: getUserByIdParam_def sqlEq_def)

lemma getUserByIdParam_by_UserId:
  "find (\<lambda>u. MayhemId u = Some p) us = None
   \<Longrightarrow> getUserByIdParam us p = find (\<lambda>u. sqlEqInt (UserId u) p) us"
  by (simp add: getUserByIdParam_def sqlEq_def)

lemma getUserByIdParam_examples:
  "getUserByIdParam [owner42\<lparr>UserId := Some 43\<rparr>, newcomer43] ''43'' = Some newcomer43
   \<and> getUserByIdParam [owner42, newcomer43] ''7'' = Some owner42
   \<and> getUserByIdParam [owner42, newcomer43] ''07'' = Some owner42
   \<and> getUserByIdParam [owner42, newcomer43] ''042'' = None"
  by code_simp

section \<open>Presence: online status and session tracking\<close>

lemma isOnline_iff_fresh:
  "isOnline now m uid \<longleftrightarrow> (\<exists>s. m uid = Some s \<and> now - lastActive s \<le> sessionTimeout)"
  by (auto simp: isOnline_def getSession_def isSessionStale_def split: option.splits)

lemma isOnline_after_track:
  assumes "uid \<noteq> []" and "mid \<noteq> []" and "ad_lastActive ad = None"
  shows "isOnline t (snd (trackSession t0 newId m uid mid host ad)) uid \<longleftrightarrow> t - t0 \<le> sessionTimeout"
  using assms
  by (simp add: isOnline_def getSession_def isSessionStale_def trackSession_def spread_def)

lemma isOnline_after_update:
  assumes "m uid = Some s0"
  shows "isOnline t (snd (updateActivity t1 m uid)) uid \<longleftrightarrow> t - t1 \<le> sessionTimeout"
  using assms
  by (simp add: isOnline_def getSession_def isSessionStale_def updateActivity_def)

lemma cleanupSweep_isOnline: "isOnline now (cleanupSweep now m) uid = isOnline now m uid"
  by (simp add: isOnline_def getSession_def cleanupSweep_def split: option.splits)

text \<open>
  Claim C6, as the code has it. A session is stale when \<open>now - lastActive > sessionTimeout\<close>,
  so \<open>isOnline\<close> holds iff a session exists and \<open>now - lastActive \<le> sessionTimeout\<close>
  (300000 ms): the boundary \<open>now - lastActive = sessionTimeout\<close> is still online. After
  \<open>trackSession\<close> at time \<open>t0\<close> (metadata without a \<open>lastActive\<close> key), or after
  \<open>updateActivity\<close> at time \<open>t1\<close> on an existing session, and no further activity, the
  account is online at time \<open>t\<close> exactly while \<open>t - t0 \<le> sessionTimeout\<close>.
\<close>

theorem isOnline_timeout:
  "(isOnline now m uid \<longleftrightarrow> (\<exists>s. m uid = Some s \<and> now - lastActive s \<le> sessionTimeout))
   \<and> (uid \<noteq> [] \<and> mid \<noteq> [] \<and> ad_lastActive ad = None \<longrightarrow>
        (isOnline t (snd (trackSession t0 newId m uid mid host ad)) uid \<longleftrightarrow> t - t0 \<le> sessionTimeout))
   \<and> (m uid \<noteq> None \<longrightarrow>
        (isOnline t (snd (updateActivity t1 m uid)) uid \<longleftrightarrow> t - t1 \<le> sessionTimeout))"
proof (intro conjI impI)
  show "isOnline now m uid \<longleftrightarrow> (\<exists>s. m uid = Some s \<and> now - lastActive s \<le> sessionTimeout)"
    by (rule isOnline_iff_fresh)
next
  assume "uid \<noteq> [] \<and> mid \<noteq> [] \<and> ad_lastActive ad = None"
  then show "isOnline t (snd (trackSession t0 newId m uid mid host ad)) uid \<longleftrightarrow> t - t0 \<le> sessionTimeout"
    using isOnline_after_track [of uid mid ad] by simp
next
  assume "m uid \<noteq> None"
  then obtain s0 where "m uid = Some s0"
    by (cases "m uid") simp_all
  then show "isOnline t (snd (updateActivity t1 m uid)) uid \<longleftrightarrow> t - t1 \<le> sessionTimeout"
    by (rule isOnline_after_update)
qed

text \<open>
  Witness for C6: user \<open>7\<close> tracked at time 1000 is online at time 301000 (exactly one
  timeout later) and offline at time 301001.
\<close>

theorem isOnline_timeout_witness:
  "''7'' \<noteq> [] \<and> ''42'' \<noteq> [] \<and> ad_lastActive (tokenRequestData 1000 (Some ''bart'')) = None
   \<and> isOnline 301000 trackedOnce ''7'' \<and> \<not> isOnline 301001 trackedOnce ''7''"
  using isOnline_timeout [of 0 noSessions "''7''" "''42''" "tokenRequestData 1000 (Some ''bart'')"
      301000 1000 "''session_a''" "''hostA''" 0]
    isOnline_timeout [of 0 noSessions "''7''" "''42''" "tokenRequestData 1000 (Some ''bart'')"
      301001 1000 "''session_a''" "''hostA''" 0]
  by (simp add: trackedOnce_def tokenRequestData_def emptyData_def sessionTimeout_def)

text \<open>
  Counterexample to C6 as stated (online iff \<open>now - lastActiveAt < timeout\<close>): at time
  301000 the session of user \<open>7\<close> has \<open>lastActive = 1000\<close>, so \<open>now - lastActive\<close> is not
  below the timeout, and the user is online.
\<close>

theorem isOnline_boundary_counterexample:
  "map_option lastActive (trackedOnce ''7'') = Some 1000
   \<and> \<not> ((301000::int) - 1000 < sessionTimeout)
   \<and> isOnline 301000 trackedOnce ''7''"
  by (simp add: trackedOnce_def trackSession_def spread_def tokenRequestData_def emptyData_def
      noSessions_def sessionTimeout_def isOnline_def getSession_def isSessionStale_def)

text \<open>
  Claim C9, as the code has it. \<open>trackSession\<close> builds a new session object on every
  call. For metadata without a \<open>connectedAt\<close> or \<open>sessionId\<close> key, the new object keeps
  the \<open>connectedAt\<close> and \<open>sessionId\<close> of an existing session and takes fresh ones only
  when there is none; everything else is rebuilt from the call: \<open>lastActive\<close> is the
  current time, Mayhem id and host name are the arguments, the metadata keys are
  exactly the supplied ones, and \<open>visitingFriendId\<close> and \<open>visitStartTime\<close> are gone. The
  sessions of other users are untouched.
\<close>

theorem trackSession_rebuilds:
  assumes "uid \<noteq> []" and "mid \<noteq> []"
    and "ad_connectedAt ad = None" and "ad_sessionId ad = None"
  shows "(\<forall>s. m uid = Some s \<longrightarrow>
            map_option connectedAt (snd (trackSession now newId m uid mid host ad) uid) = Some (connectedAt s)
          \<and> map_option sessionId (snd (trackSession now newId m uid mid host ad) uid) = Some (sessionId s))
       \<and> (m uid = None \<longrightarrow>
            map_option connectedAt (snd (trackSession now newId m uid mid host ad) uid) = Some now
          \<and> map_option sessionId (snd (trackSession now newId m uid mid host ad) uid) = Some newId)
       \<and> (ad_lastActive ad = None \<longrightarrow>
            map_option lastActive (snd (trackSession now newId m uid mid host ad) uid) = Some now)
       \<and> (ad_mayhemId ad = None \<longrightarrow>
            map_option mayhemId (snd (trackSession now newId m uid mid host ad) uid) = Some mid)
       \<and> (ad_hostname ad = None \<longrightarrow>
            map_option hostname (snd (trackSession now newId m uid mid host ad) uid) = Some host)
       \<and> map_option action (snd (trackSession now newId m uid mid host ad) uid) = Some (ad_action ad)
       \<and> map_option timestamp (snd (trackSession now newId m uid mid host ad) uid) = Some (ad_timestamp ad)
       \<and> map_option username (snd (trackSession now newId m uid mid host ad) uid) = Some (ad_username ad)
       \<and> map_option visitingFriendId (snd (trackSession now newId m uid mid host ad) uid) = Some None
       \<and> map_option visitStartTime (snd (trackSession now newId m uid mid host ad) uid) = Some None
       \<and> (\<forall>v. v \<noteq> uid \<longrightarrow> snd (trackSession now newId m uid mid host ad) v = m v)"
  using assms by (simp add: trackSession_def spread_def)

text \<open>
  Witness for C9: the second call for user \<open>7\<close> keeps \<open>connectedAt = 1000\<close> and the first
  session id, and sets \<open>lastActive\<close> to 2000.
\<close>

theorem trackSession_rebuilds_witness:
  "''7'' \<noteq> [] \<and> ''42'' \<noteq> []
   \<and> ad_connectedAt (getLandData 2000) = None \<and> ad_sessionId (getLandData 2000) = None
   \<and> map_option connectedAt (trackedOnce ''7'') = Some 1000
   \<and> map_option sessionId (trackedOnce ''7'') = Some ''session_a''
   \<and> map_option connectedAt (trackedTwice ''7'') = Some 1000
   \<and> map_option sessionId (trackedTwice ''7'') = Some ''session_a''
   \<and> map_option lastActive (trackedTwice ''7'') = Some 2000"
  using trackSession_rebuilds [of "''7''" "''42''" "getLandData 2000" trackedOnce 2000
      "''session_b''" "''hostB''"]
  by (simp add: trackedTwice_def trackedOnce_def trackSession_def spread_def noSessions_def
      tokenRequestData_def getLandData_def emptyData_def)

text \<open>
  Counterexample to C9 as stated (a repeated call overwrites only \<open>lastActiveAt\<close> and the
  supplied metadata). The session of user \<open>7\<close> holds \<open>username = bart\<close>; the second call
  supplies no \<open>username\<close> key, and the session has none afterwards. In the same way
  the visiting context stored by \<open>setVisitingFriend\<close> is lost by the next call.
\<close>

theorem trackSession_drops_counterexample:
  "map_option username (trackedOnce ''7'') = Some (Some ''bart'')
   \<and> ad_username (getLandData 2000) = None
   \<and> map_option username (trackedTwice ''7'') = Some None
   \<and> map_option visitingFriendId (visiting ''7'') = Some (Some ''43'')
   \<and> map_option visitingFriendId (trackedAfterVisit ''7'') = Some None"
  by code_simp

section \<open>The friend graph\<close>

lemma list_ex_map_accept:
  "list_ex (\<lambda>f. P f \<and> status f = ''pending'') fs \<Longrightarrow>
   (\<And>f. P (f\<lparr>status := ''accepted''\<rparr>) = P f) \<Longrightarrow>
   list_ex (\<lambda>f. P f \<and> status f = ''accepted'')
     (map (\<lambda>f. if P f \<and> status f = ''pending'' then f\<lparr>status := ''accepted''\<rparr> else f) fs)"
  by (induction fs) auto

text \<open>
  The accept route of invitations.controller.js: when the sender's pending row exists,
  both directions are accepted afterwards.
\<close>

lemma acceptInvitation_symmetric:
  assumes "getUserByIdParam (users st) userIdParam = Some user"
    and "getUserByIdParam (users st) fromUserIdParam = Some fromUser"
    and "MayhemId user = Some a" and "MayhemId fromUser = Some b"
    and "list_ex (\<lambda>f. (ownerMayhemId f = Some b \<and> friendMayhemId f = Some a) \<and> status f = ''pending'') (friends st)"
  shows "isAccepted (friends (snd (acceptInvitation now st userIdParam fromUserIdParam))) (Some a) (Some b)
       \<and> isAccepted (friends (snd (acceptInvitation now st userIdParam fromUserIdParam))) (Some b) (Some a)"
proof -
  let ?pending = "\<lambda>f. (ownerMayhemId f = Some b \<and> friendMayhemId f = Some a) \<and> status f = ''pending''"
  from assms(5) have nonempty: "filter ?pending (friends st) \<noteq> []"
    by (auto simp: list_ex_iff filter_empty_conv)
  have updated: "list_ex (\<lambda>f. (ownerMayhemId f = Some b \<and> friendMayhemId f = Some a) \<and> status f = ''accepted'')
      (map (\<lambda>f. if ?pending f then f\<lparr>status := ''accepted''\<rparr> else f) (friends st))"
    by (rule list_ex_map_accept [OF assms(5)]) simp
  show ?thesis
    using assms(1-4) nonempty updated
    by (auto simp: acceptInvitation_def isAccepted_def sqlEq_def Let_def list_ex_iff filter_empty_conv)
qed

text \<open>
  The remove route \<open>DELETE /:userId/friends/:friendId\<close>: afterwards neither direction is
  accepted.
\<close>

lemma removeFriend_clears:
  assumes "getUserByIdParam (users st) userIdParam = Some user" and "MayhemId user = Some a"
  shows "\<not> isAccepted (friends (snd (removeFriend st userIdParam friendId))) (Some a) (Some friendId)
       \<and> \<not> isAccepted (friends (snd (removeFriend st userIdParam friendId))) (Some friendId) (Some a)"
  using assms
  by (auto simp: removeFriend_def isAccepted_def sqlEq_def Let_def list_ex_iff filter_empty_conv)

text \<open>
  Claim C3 at its failing input. Account 43 has asked account 42 (one pending row from
  43 to 42). Account 42 confirms through \<open>POST /friends/confirmInvitation\<close>: the route
  answers accepted, the only row is the accepted row from 43 to 42, and the
  relationship is accepted in that direction only.
\<close>

theorem confirmInvitation_one_sided:
  "fst (confirmInvitation requested (bearer ''AT42'') (noBody\<lparr>b_fromId := Some ''43''\<rparr>))
     = Json 200 [(''success'', ''true''), (''status'', ''accepted'')]
   \<and> friends confirmed = [\<lparr>ownerMayhemId = Some ''43'', friendMayhemId = Some ''42'',
        status = ''accepted'', createdAt = 5\<rparr>]
   \<and> isAccepted (friends confirmed) (Some ''43'') (Some ''42'')
   \<and> \<not> isAccepted (friends confirmed) (Some ''42'') (Some ''43'')"
  by code_simp

lemma find_snoc:
  "find P (xs @ [x]) = (case find P xs of Some y \<Rightarrow> Some y | None \<Rightarrow> if P x then Some x else None)"
  by (induction xs) auto

text \<open>
  \<open>POST /invitations\<close> twice in a row by the same caller for the same target: both
  answers carry the same status, the second call stores nothing, and when no row from
  the caller to the target existed before, that status is pending and exactly one such
  row exists afterwards.
\<close>

lemma postInvitations_twice:
  assumes "authToken h = Some tok" and "tok \<noteq> []"
    and "userByToken (users st) tok = Some owner"
    and "js_or (js_or (js_or (js_or (b_toId b) (b_friendMayhemId b)) (b_targetId b))
           (b_personaId b)) (b_recipientId b) = Some toId" and "toId \<noteq> []"
  shows "\<exists>s. fst (postInvitations now st h b) = Json 200 [(''success'', ''true''), (''status'', s)]
           \<and> postInvitations now' (snd (postInvitations now st h b)) h b
               = (Json 200 [(''success'', ''true''), (''status'', s)], snd (postInvitations now st h b))
           \<and> (rowsOf (friends st) (Some (callerId owner)) (Some toId) = [] \<longrightarrow>
                s = ''pending''
              \<and> rowsOf (friends (snd (postInvitations now st h b))) (Some (callerId owner)) (Some toId)
                  = [\<lparr>ownerMayhemId = Some (callerId owner), friendMayhemId = Some toId,
                       status = ''pending'', createdAt = now div 1000\<rparr>])"
proof (cases "find (\<lambda>f. sqlEq (ownerMayhemId f) (Some (callerId owner)) \<and> sqlEq (friendMayhemId f) (Some toId))
    (friends st)")
  case None
  then have "rowsOf (friends st) (Some (callerId owner)) (Some toId) = []"
    by (auto simp: rowsOf_def find_None_iff filter_empty_conv)
  with None assms show ?thesis
    by (simp add: postInvitations_def Let_def truthy_def find_snoc rowsOf_def sqlEq_def)
next
  case (Some existing)
  then have "rowsOf (friends st) (Some (callerId owner)) (Some toId) \<noteq> []"
    by (auto simp: rowsOf_def find_Some_iff filter_empty_conv)
  with Some assms show ?thesis
    by (simp add: postInvitations_def Let_def truthy_def)
qed

text \<open>
  Claim C4 at its failing input. The pending row from 43 to 42 exists; account 42 now
  asks 43 through \<open>POST /invitations\<close>. The route looks up only the direction from 42 to
  43, finds nothing, and stores a second row for the pair.
\<close>

theorem postInvitations_reverse_row:
  "friends requested = [\<lparr>ownerMayhemId = Some ''43'', friendMayhemId = Some ''42'',
        status = ''pending'', createdAt = 5\<rparr>]
   \<and> fst (postInvitations 6000 requested (bearer ''AT42'') (noBody\<lparr>b_toId := Some ''43''\<rparr>))
     = Json 200 [(''success'', ''true''), (''status'', ''pending'')]
   \<and> friends (snd (postInvitations 6000 requested (bearer ''AT42'') (noBody\<lparr>b_toId := Some ''43''\<rparr>)))
     = [\<lparr>ownerMayhemId = Some ''43'', friendMayhemId = Some ''42'', status = ''pending'', createdAt = 5\<rparr>,
        \<lparr>ownerMayhemId = Some ''42'', friendMayhemId = Some ''43'', status = ''pending'', createdAt = 6\<rparr>]"
  by code_simp

text \<open>
  The legacy route \<open>POST /friend/invite\<close> answers a repeated request with status 409.
\<close>

lemma friendInvite_twice_409:
  "fst (friendInvite 6000
      (snd (friendInvite 5000 twoAccounts (noBody\<lparr>b_fromId := Some ''43'', b_toId := Some ''42''\<rparr>)))
      (noBody\<lparr>b_fromId := Some ''43'', b_toId := Some ''42''\<rparr>))
   = Json 409 [(''error'', ''Friend request already exists''), (''status'', ''pending'')]"
  by code_simp

section \<open>Saving a land and the save token\<close>

lemma clearEventsFile_users: "users (clearEventsFile cfg st x) = users st"
  by (simp add: clearEventsFile_def split: option.splits)

lemma clearEventsFile_files:
  "files (clearEventsFile cfg st x) = (files st)(eventsPath cfg x := None)"
  by (auto simp: clearEventsFile_def split: option.splits)

lemma gameToken_land_update_token: "gameToken (h\<lparr>land_update_token := t\<rparr>) = gameToken h"
  by (simp add: gameToken_def)

text \<open>
  Claim C1, as the code has it. For the authenticated owner (the bearer token is the
  account's access token) a document write succeeds whatever \<open>land-update-token\<close> it
  presents, \<open>t\<close> being the stored token, any other token or none: the PUT and POST
  handlers answer the same and leave the same state as without the header, the stored
  save token of every account is unchanged by the write, the bytes are stored under the
  registered path, and the incremental update \<open>extraLandUpdate\<close> likewise does not
  depend on the header.
\<close>

theorem save_token_not_checked:
  assumes "gameToken h = Some tok" and "tok \<noteq> []"
    and "userByMayhemId (users st) landIdParam = Some u" and "UserAccessToken u = Some tok"
  shows "fst (putLand cfg st landIdParam (h\<lparr>land_update_token := t\<rparr>) reqBody) = LandUpdateResponse
       \<and> putLand cfg st landIdParam (h\<lparr>land_update_token := t\<rparr>) reqBody
           = putLand cfg st landIdParam (h\<lparr>land_update_token := None\<rparr>) reqBody
       \<and> postLand cfg st landIdParam (h\<lparr>land_update_token := t\<rparr>) reqBody
           = postLand cfg st landIdParam (h\<lparr>land_update_token := None\<rparr>) reqBody
       \<and> map WholeLandToken (users (snd (putLand cfg st landIdParam (h\<lparr>land_update_token := t\<rparr>) reqBody)))
           = map WholeLandToken (users st)
       \<and> (\<forall>p. LandSavePath u = Some p \<and> p \<noteq> [] \<and> p \<noteq> eventsPath cfg landIdParam \<longrightarrow>
            files (snd (putLand cfg st landIdParam (h\<lparr>land_update_token := t\<rparr>) reqBody)) p = Some reqBody)
       \<and> extraLandUpdate pb cfg now st landIdParam (h\<lparr>land_update_token := t\<rparr>) reqBody
           = extraLandUpdate pb cfg now st landIdParam (h\<lparr>land_update_token := None\<rparr>) reqBody"
  using assms
  by (simp add: putLand_def postLand_def extraLandUpdate_def gameToken_land_update_token Let_def
      clearEventsFile_users clearEventsFile_files truthy_def o_def)

text \<open>
  Witness for C1: account 42 holds the save token \<open>T1\<close>; a write presenting the token
  \<open>T0\<close> succeeds, stores the bytes and leaves \<open>T1\<close> in place.
\<close>

theorem save_token_not_checked_witness:
  "gameToken (bearer ''AT42'') = Some ''AT42'' \<and> ''AT42'' \<noteq> []
   \<and> map_option UserAccessToken (userByMayhemId (users issuedT1) ''42'') = Some (Some ''AT42'')
   \<and> map_option WholeLandToken (userByMayhemId (users issuedT1) ''42'') = Some (Some ''T1'')
   \<and> fst (putLand demoConfig issuedT1 ''42'' (withToken ''AT42'' ''T0'') [0x01]) = LandUpdateResponse
   \<and> map WholeLandToken (users (snd (putLand demoConfig issuedT1 ''42'' (withToken ''AT42'' ''T0'') [0x01])))
       = [Some ''T1'', None]
   \<and> files (snd (putLand demoConfig issuedT1 ''42'' (withToken ''AT42'' ''T0'') [0x01])) ''data/42/42.land''
       = Some [0x01]"
proof -
  have h1: "gameToken (bearer ''AT42'') = Some ''AT42''"
    by (simp add: gameToken_def bearer_def js_or_def truthy_def)
  have h2: "''AT42'' \<noteq> []" by simp
  have h3: "userByMayhemId (users issuedT1) ''42''
      = Some (owner42\<lparr>WholeLandToken := Some ''T1'', LastPlayedTime := Some 1000\<rparr>)"
    by code_simp
  have h4: "UserAccessToken (owner42\<lparr>WholeLandToken := Some ''T1'', LastPlayedTime := Some 1000\<rparr>) = Some ''AT42''"
    by (simp add: owner42_def)
  have toks: "map WholeLandToken (users issuedT1) = [Some ''T1'', None]"
    by code_simp
  have path: "LandSavePath (owner42\<lparr>WholeLandToken := Some ''T1'', LastPlayedTime := Some 1000\<rparr>)
      = Some ''data/42/42.land''"
    by (simp add: owner42_def)
  have other: "''data/42/42.land'' \<noteq> eventsPath demoConfig ''42''"
    by (simp add: eventsPath_def demoConfig_def)
  have nonempty: "''data/42/42.land'' \<noteq> []" by simp
  note main = save_token_not_checked [OF h1 h2 h3 h4, of demoConfig "Some ''T0''" "[0x01]" toyPb 0]
  have ok: "fst (putLand demoConfig issuedT1 ''42'' (withToken ''AT42'' ''T0'') [0x01]) = LandUpdateResponse"
    unfolding withToken_def by (rule main [THEN conjunct1])
  have kept: "map WholeLandToken (users (snd (putLand demoConfig issuedT1 ''42'' (withToken ''AT42'' ''T0'') [0x01])))
      = [Some ''T1'', None]"
    unfolding withToken_def
    using main [THEN conjunct2, THEN conjunct2, THEN conjunct2, THEN conjunct1] toks by (rule trans)
  have stored: "files (snd (putLand demoConfig issuedT1 ''42'' (withToken ''AT42'' ''T0'') [0x01])) ''data/42/42.land''
      = Some [0x01]"
    unfolding withToken_def
    by (rule main [THEN conjunct2, THEN conjunct2, THEN conjunct2, THEN conjunct2, THEN conjunct1,
          rule_format, OF conjI [OF path conjI [OF nonempty other]]])
  have tok: "map_option UserAccessToken (userByMayhemId (users issuedT1) ''42'') = Some (Some ''AT42'')"
    by (simp add: h3 h4)
  have tok1: "map_option WholeLandToken (userByMayhemId (users issuedT1) ''42'') = Some (Some ''T1'')"
    by (simp add: h3)
  show ?thesis
    by (intro conjI h1 h2 tok tok1 ok kept stored)
qed

text \<open>
  Counterexample to C1 as stated (a write presenting \<open>T1\<close> issues a new token, and a
  later write still presenting \<open>T1\<close> is rejected with Conflict). Account 42 is issued
  \<open>T1\<close> and saves presenting \<open>T1\<close>: the write succeeds and the stored token is still \<open>T1\<close>.
  A second write presenting \<open>T1\<close> succeeds. After the token request has replaced \<open>T1\<close>
  by \<open>T2\<close>, a write presenting the old \<open>T1\<close> succeeds as well and its bytes are stored.
\<close>

theorem stale_save_token_counterexample:
  "map WholeLandToken (users issuedT1) = [Some ''T1'', None]
   \<and> fst savedOnce = LandUpdateResponse
   \<and> map WholeLandToken (users (snd savedOnce)) = [Some ''T1'', None]
   \<and> fst savedTwice = LandUpdateResponse
   \<and> map WholeLandToken (users issuedT2) = [Some ''T2'', None]
   \<and> fst savedStale = LandUpdateResponse
   \<and> files (snd savedStale) ''data/42/42.land'' = Some [0x03]"
  by code_simp

section \<open>The event mailbox\<close>

lemma postEvent_enqueues:
  assumes "enqueuesFor pb owner r"
    and "decodeEventMessage pb (er_body r) = Some m"
  shows "files (snd (postEvent pb cfg (er_uuid r) st (er_toPlayerId r) (er_headers r) (er_body r)))
           (eventsPath cfg owner)
         = Some (encodeEventsMessage pb
             (loadEvents pb cfg st owner @ [stampEvent (er_uuid r) (er_toPlayerId r) m]))"
  using assms
  by (auto simp: postEvent_def enqueuesFor_def truthy_def Let_def split: option.splits)

lemma loadEvents_after_postEvent:
  assumes "enqueuesFor pb owner r"
    and "decodeEventMessage pb (er_body r) = Some m"
    and "roundTrips pb (loadEvents pb cfg st owner @ [stampEvent (er_uuid r) (er_toPlayerId r) m])"
  shows "loadEvents pb cfg
           (snd (postEvent pb cfg (er_uuid r) st (er_toPlayerId r) (er_headers r) (er_body r))) owner
         = loadEvents pb cfg st owner @ [stampEvent (er_uuid r) (er_toPlayerId r) m]"
  using postEvent_enqueues [OF assms(1,2), of cfg st] assms(3)
  by (simp add: loadEvents_def [of pb cfg "snd _"] roundTrips_def)

lemma envelopes_Nil: "envelopes pb [] = []"
  by (simp add: envelopes_def)

lemma envelopes_Cons:
  "decodeEventMessage pb (er_body r) = Some m \<Longrightarrow>
   envelopes pb (r # rs) = stampEvent (er_uuid r) (er_toPlayerId r) m # envelopes pb rs"
  by (simp add: envelopes_def)

lemma loadEvents_after_postEvents:
  assumes "\<forall>r \<in> set rs. enqueuesFor pb owner r"
    and "\<forall>k. 0 < k \<and> k \<le> length rs \<longrightarrow>
           roundTrips pb (loadEvents pb cfg st owner @ take k (envelopes pb rs))"
  shows "loadEvents pb cfg (postEvents pb cfg st rs) owner
         = loadEvents pb cfg st owner @ envelopes pb rs"
  using assms
proof (induction rs arbitrary: st)
  case Nil
  then show ?case by (simp add: envelopes_def)
next
  case (Cons r rs)
  let ?st1 = "snd (postEvent pb cfg (er_uuid r) st (er_toPlayerId r) (er_headers r) (er_body r))"
  from Cons.prems(1) have valid: "enqueuesFor pb owner r" by simp
  then obtain m where m: "decodeEventMessage pb (er_body r) = Some m"
    by (auto simp: enqueuesFor_def split: option.splits)
  let ?e = "stampEvent (er_uuid r) (er_toPlayerId r) m"
  have env: "envelopes pb (r # rs) = ?e # envelopes pb rs"
    using m by (rule envelopes_Cons)
  have "roundTrips pb (loadEvents pb cfg st owner @ take 1 (envelopes pb (r # rs)))"
    using Cons.prems(2) by simp
  then have first: "roundTrips pb (loadEvents pb cfg st owner @ [?e])"
    by (simp add: env)
  have step: "loadEvents pb cfg ?st1 owner = loadEvents pb cfg st owner @ [?e]"
    using valid m first by (rule loadEvents_after_postEvent)
  have rest: "\<forall>k. 0 < k \<and> k \<le> length rs \<longrightarrow>
      roundTrips pb (loadEvents pb cfg ?st1 owner @ take k (envelopes pb rs))"
  proof (intro allI impI)
    fix k assume k: "0 < k \<and> k \<le> length rs"
    then have "roundTrips pb (loadEvents pb cfg st owner @ take (Suc k) (envelopes pb (r # rs)))"
      using Cons.prems(2) by simp
    then show "roundTrips pb (loadEvents pb cfg ?st1 owner @ take k (envelopes pb rs))"
      by (simp add: env step)
  qed
  have "loadEvents pb cfg (postEvents pb cfg ?st1 rs) owner
      = loadEvents pb cfg ?st1 owner @ envelopes pb rs"
    using Cons.prems(1) rest by (intro Cons.IH) simp_all
  then show ?case by (simp add: step env)
qed

lemma getEvents_readonly: "snd (getEvents pb cfg st x) = st"
  by (simp add: getEvents_def split: option.splits)

lemma getEvents_loaded:
  assumes "files st (eventsPath cfg owner) = Some d" and "decodeEventsMessage pb d = Some es"
  shows "getEvents pb cfg st owner = (EventsBytes d, st)"
  using assms by (simp add: getEvents_def)

lemma files_after_postEvents:
  assumes "\<forall>r \<in> set rs. enqueuesFor pb owner r" and "rs \<noteq> []"
    and "\<forall>k. 0 < k \<and> k \<le> length rs \<longrightarrow>
           roundTrips pb (loadEvents pb cfg st owner @ take k (envelopes pb rs))"
  shows "files (postEvents pb cfg st rs) (eventsPath cfg owner)
         = Some (encodeEventsMessage pb (loadEvents pb cfg st owner @ envelopes pb rs))"
  using assms
proof (induction rs arbitrary: st)
  case Nil
  then show ?case by simp
next
  case (Cons r rs)
  let ?st1 = "snd (postEvent pb cfg (er_uuid r) st (er_toPlayerId r) (er_headers r) (er_body r))"
  from Cons.prems(1) have valid: "enqueuesFor pb owner r" by simp
  then obtain m where m: "decodeEventMessage pb (er_body r) = Some m"
    by (auto simp: enqueuesFor_def split: option.splits)
  let ?e = "stampEvent (er_uuid r) (er_toPlayerId r) m"
  have env: "envelopes pb (r # rs) = ?e # envelopes pb rs"
    using m by (rule envelopes_Cons)
  have "roundTrips pb (loadEvents pb cfg st owner @ take 1 (envelopes pb (r # rs)))"
    using Cons.prems(3) by simp
  then have first: "roundTrips pb (loadEvents pb cfg st owner @ [?e])"
    by (simp add: env)
  have step: "loadEvents pb cfg ?st1 owner = loadEvents pb cfg st owner @ [?e]"
    using valid m first by (rule loadEvents_after_postEvent)
  show ?case
  proof (cases "rs = []")
    case True
    with env have "envelopes pb (r # rs) = [?e]"
      by (simp add: envelopes_Nil)
    with True show ?thesis
      using postEvent_enqueues [OF valid m, of cfg st] by simp
  next
    case False
    have rest: "\<forall>k. 0 < k \<and> k \<le> length rs \<longrightarrow>
        roundTrips pb (loadEvents pb cfg ?st1 owner @ take k (envelopes pb rs))"
    proof (intro allI impI)
      fix k assume k: "0 < k \<and> k \<le> length rs"
      then have "roundTrips pb (loadEvents pb cfg st owner @ take (Suc k) (envelopes pb (r # rs)))"
        using Cons.prems(3) by simp
      then show "roundTrips pb (loadEvents pb cfg ?st1 owner @ take k (envelopes pb rs))"
        by (simp add: env step)
    qed
    have "files (postEvents pb cfg ?st1 rs) (eventsPath cfg owner)
        = Some (encodeEventsMessage pb (loadEvents pb cfg ?st1 owner @ envelopes pb rs))"
      using Cons.prems(1) False rest by (intro Cons.IH) simp_all
    then show ?thesis by (simp add: step env)
  qed
qed

lemma envelopes_length:
  "\<forall>r \<in> set rs. enqueuesFor pb owner r \<Longrightarrow> length (envelopes pb rs) = length rs"
  by (induction rs) (auto simp: envelopes_def enqueuesFor_def split: option.splits)

lemma putLand_clears_events:
  assumes "fst (putLand cfg st owner h reqBody) = LandUpdateResponse"
  shows "files (snd (putLand cfg st owner h reqBody)) (eventsPath cfg owner) = None"
  using assms
  by (auto simp: putLand_def Let_def clearEventsFile_files split: option.splits if_splits)

text \<open>
  Claim C2. Let \<open>rs\<close> be a non-empty sequence of event posts that all enqueue for owner
  \<open>O\<close>, on a codec that reads back the queues it writes on the way. Then the drain
  \<open>getEvents\<close> for \<open>O\<close> sends the stored bytes and leaves the state as it was; the bytes
  decode to the events queued before followed by the posted envelopes, one per request
  and in the order of the requests. After any successful \<open>putLand\<close> of \<open>O\<close> the drain
  answers the empty events message.
\<close>

theorem mailbox_drain_then_clear:
  assumes "\<forall>r \<in> set rs. enqueuesFor pb owner r" and "rs \<noteq> []"
    and "\<forall>k. 0 < k \<and> k \<le> length rs \<longrightarrow>
           roundTrips pb (loadEvents pb cfg st owner @ take k (envelopes pb rs))"
  shows "getEvents pb cfg (postEvents pb cfg st rs) owner
           = (EventsBytes (encodeEventsMessage pb (loadEvents pb cfg st owner @ envelopes pb rs)),
              postEvents pb cfg st rs)
       \<and> decodeEventsMessage pb (encodeEventsMessage pb (loadEvents pb cfg st owner @ envelopes pb rs))
           = Some (loadEvents pb cfg st owner @ envelopes pb rs)
       \<and> length (envelopes pb rs) = length rs
       \<and> (\<forall>h reqBody. fst (putLand cfg (postEvents pb cfg st rs) owner h reqBody) = LandUpdateResponse \<longrightarrow>
            getEvents pb cfg (snd (putLand cfg (postEvents pb cfg st rs) owner h reqBody)) owner
              = (EventsMessageResponse [], snd (putLand cfg (postEvents pb cfg st rs) owner h reqBody)))"
proof -
  have all: "roundTrips pb (loadEvents pb cfg st owner @ envelopes pb rs)"
    using assms(3) envelopes_length [OF assms(1)] assms(2)
    by (metis length_greater_0_conv order_refl take_all)
  then have dec: "decodeEventsMessage pb (encodeEventsMessage pb (loadEvents pb cfg st owner @ envelopes pb rs))
      = Some (loadEvents pb cfg st owner @ envelopes pb rs)"
    by (simp add: roundTrips_def)
  have stored: "files (postEvents pb cfg st rs) (eventsPath cfg owner)
      = Some (encodeEventsMessage pb (loadEvents pb cfg st owner @ envelopes pb rs))"
    using assms by (rule files_after_postEvents)
  have drain: "getEvents pb cfg (postEvents pb cfg st rs) owner
      = (EventsBytes (encodeEventsMessage pb (loadEvents pb cfg st owner @ envelopes pb rs)),
         postEvents pb cfg st rs)"
    using stored dec by (rule getEvents_loaded)
  have cleared: "getEvents pb cfg (snd (putLand cfg st' owner h reqBody)) owner
      = (EventsMessageResponse [], snd (putLand cfg st' owner h reqBody))"
    if "fst (putLand cfg st' owner h reqBody) = LandUpdateResponse" for st' h reqBody
    using putLand_clears_events [OF that] by (simp add: getEvents_def)
  show ?thesis
    using drain dec envelopes_length [OF assms(1)] cleared by blast
qed

text \<open>
  Witness for C2: three visits posted to account 42 are drained as the bytes
  \<open>[1, 2, 3]\<close>, which decode to the three envelopes in order; after the owner's save
  the drain is empty.
\<close>

theorem mailbox_drain_then_clear_witness:
  "list_all (enqueuesFor toyPb ''42'') threeVisits \<and> threeVisits \<noteq> []
   \<and> loadEvents toyPb demoConfig demoServer ''42'' = []
   \<and> envelopes toyPb threeVisits = [toyEvent 1, toyEvent 2, toyEvent 3]
   \<and> roundTrips toyPb [toyEvent 1] \<and> roundTrips toyPb [toyEvent 1, toyEvent 2]
   \<and> roundTrips toyPb [toyEvent 1, toyEvent 2, toyEvent 3]
   \<and> fst (getEvents toyPb demoConfig visited ''42'') = EventsBytes [1, 2, 3]
   \<and> decodeEventsMessage toyPb [1, 2, 3] = Some [toyEvent 1, toyEvent 2, toyEvent 3]
   \<and> fst savedAfterVisits = LandUpdateResponse
   \<and> fst (getEvents toyPb demoConfig (snd savedAfterVisits) ''42'') = EventsMessageResponse []"
proof -
  have valid: "\<forall>r \<in> set threeVisits. enqueuesFor toyPb ''42'' r"
    by (simp add: threeVisits_def visit_def enqueuesFor_def toyPb_def gameToken_def bearer_def
        js_or_def truthy_def actualOwnerId_def)
  have ne: "threeVisits \<noteq> []" by (simp add: threeVisits_def)
  have empty: "loadEvents toyPb demoConfig demoServer ''42'' = []"
    by code_simp
  have env: "envelopes toyPb threeVisits = [toyEvent 1, toyEvent 2, toyEvent 3]"
    by code_simp
  have r1: "roundTrips toyPb [toyEvent 1]" by code_simp
  have r2: "roundTrips toyPb [toyEvent 1, toyEvent 2]" by code_simp
  have r3: "roundTrips toyPb [toyEvent 1, toyEvent 2, toyEvent 3]" by code_simp
  have rt: "\<forall>k. 0 < k \<and> k \<le> length threeVisits \<longrightarrow>
      roundTrips toyPb (loadEvents toyPb demoConfig demoServer ''42'' @ take k (envelopes toyPb threeVisits))"
  proof (intro allI impI)
    fix k :: nat assume "0 < k \<and> k \<le> length threeVisits"
    then have "k = 1 \<or> k = 2 \<or> k = 3" by (auto simp: threeVisits_def)
    then show "roundTrips toyPb (loadEvents toyPb demoConfig demoServer ''42'' @ take k (envelopes toyPb threeVisits))"
      using r1 r2 r3 by (auto simp: empty env)
  qed
  have enc: "encodeEventsMessage toyPb [toyEvent 1, toyEvent 2, toyEvent 3] = [1, 2, 3]"
    by code_simp
  have saved: "fst savedAfterVisits = LandUpdateResponse" by code_simp
  note main = mailbox_drain_then_clear [OF valid ne rt]
  have drained: "getEvents toyPb demoConfig visited ''42'' = (EventsBytes [1, 2, 3], visited)"
    using main [THEN conjunct1] by (simp only: visited_def empty env enc append_Nil)
  have dec: "decodeEventsMessage toyPb [1, 2, 3] = Some [toyEvent 1, toyEvent 2, toyEvent 3]"
    using main [THEN conjunct2, THEN conjunct1] by (simp only: empty env enc append_Nil)
  from main have "fst (putLand demoConfig visited ''42'' (bearer ''AT42'') [0x04]) = LandUpdateResponse \<longrightarrow>
      getEvents toyPb demoConfig (snd (putLand demoConfig visited ''42'' (bearer ''AT42'') [0x04])) ''42''
        = (EventsMessageResponse [], snd (putLand demoConfig visited ''42'' (bearer ''AT42'') [0x04]))"
    unfolding visited_def by blast
  with saved have cleared: "getEvents toyPb demoConfig (snd savedAfterVisits) ''42''
      = (EventsMessageResponse [], snd savedAfterVisits)"
    by (simp add: savedAfterVisits_def)
  from drained have drained': "fst (getEvents toyPb demoConfig visited ''42'') = EventsBytes [1, 2, 3]"
    by (simp only: fst_conv)
  from cleared have cleared': "fst (getEvents toyPb demoConfig (snd savedAfterVisits) ''42'') = EventsMessageResponse []"
    by (simp only: fst_conv)
  from valid have valid': "list_all (enqueuesFor toyPb ''42'') threeVisits"
    by (simp add: list_all_iff)
  show ?thesis
    by (intro conjI valid' ne empty env r1 r2 r3 drained' dec saved cleared')
qed

section \<open>Reading a land\<close>

lemma landQueryRow_fields [simp]:
  "MayhemId (landQueryRow u) = MayhemId u"
  "UserAccessToken (landQueryRow u) = UserAccessToken u"
  "LandSavePath (landQueryRow u) = LandSavePath u"
  "UserId (landQueryRow u) = None"
  by (simp_all add: landQueryRow_def)

lemma refreshRequester_frame [simp]:
  "users (refreshRequester now st tok) = users st"
  "friends (refreshRequester now st tok) = friends st"
  "files (refreshRequester now st tok) = files st"
  by (simp_all add: refreshRequester_def split: option.splits)

lemma trackOwner_never: "trackOwner now newId st landIdParam host tok (landQueryRow u) = st"
  by (simp add: trackOwner_def truthyInt_def)

lemma serveLand_landQueryRow:
  "serveLand pb cfg st landIdParam tok rq (landQueryRow u) = serveLand pb cfg st landIdParam tok rq u"
  by (simp add: serveLand_def landOwnerId_def Let_def)

lemma serveLand_frame:
  assumes f: "friends st' = friends st" and g: "files st' = files st"
  shows "serveLand pb cfg st' landIdParam tok rq u = serveLand pb cfg st landIdParam tok rq u"
  unfolding serveLand_def loadEvents_def f g ..

lemma getLand_unknown:
  assumes "gameToken h = Some tok" and "tok \<noteq> []"
    and "getUserByIdParam (users st) landIdParam = None"
  shows "getLand pb cfg now newId st landIdParam host h
       = (LandMessageResponse \<lparr>landId = landIdParam, friendListData = [], landRest = []\<rparr>,
          refreshRequester now st tok)"
  using assms by (simp add: getLand_def Let_def)

lemma getLand_known:
  assumes "gameToken h = Some tok" and "tok \<noteq> []"
    and "getUserByIdParam (users st) landIdParam = Some u"
  shows "getLand pb cfg now newId st landIdParam host h
       = (serveLand pb cfg st landIdParam tok (requesterMayhemId (users st) tok) u,
          refreshRequester now st tok)"
  using assms
  by (simp add: getLand_def Let_def trackOwner_never serveLand_landQueryRow
      serveLand_frame [of "refreshRequester now st tok" st])

lemma requesterMayhemId_truthy:
  "requesterMayhemId us tok = Some m \<Longrightarrow> truthy (requesterMayhemId us tok)"
  by (auto simp: requesterMayhemId_def split: option.splits if_splits)

lemma isAccepted_requester_truthy:
  assumes "isAccepted fs (requesterMayhemId us tok) b"
  shows "truthy (requesterMayhemId us tok)"
proof (cases "requesterMayhemId us tok")
  case None
  with assms show ?thesis by (simp add: isAccepted_def sqlEq_def list_ex_iff)
next
  case (Some m)
  then show ?thesis by (rule requesterMayhemId_truthy)
qed

text \<open>
  Claim C7. For a read that passes the checks before the document is looked at (a
  bearer token is present, the account exists, and the requester is the owner or an
  accepted friend), the answer is the NotFound error \<open>404 NO_SUCH_RESOURCE
  LAND_NOT_FOUND\<close> when the account has no storage path (null or empty), when the
  stored file has zero bytes, and when no file is stored under the path.
\<close>

theorem getLand_not_found:
  assumes "gameToken h = Some tok" and "tok \<noteq> []"
    and "getUserByIdParam (users st) landIdParam = Some u"
    and "UserAccessToken u = Some tok
         \<or> isAccepted (friends st) (requesterMayhemId (users st) tok) (Some (landOwnerId u landIdParam))"
  shows "(LandSavePath u = None \<or> LandSavePath u = Some [] \<longrightarrow>
            fst (getLand pb cfg now newId st landIdParam host h)
              = ErrorXml 404 ''NO_SUCH_RESOURCE'' ''LAND_NOT_FOUND'')
       \<and> (\<forall>p. LandSavePath u = Some p \<and> files st p = Some [] \<longrightarrow>
            fst (getLand pb cfg now newId st landIdParam host h)
              = ErrorXml 404 ''NO_SUCH_RESOURCE'' ''LAND_NOT_FOUND'')
       \<and> (\<forall>p. LandSavePath u = Some p \<and> files st p = None \<longrightarrow>
            fst (getLand pb cfg now newId st landIdParam host h)
              = ErrorXml 404 ''NO_SUCH_RESOURCE'' ''LAND_NOT_FOUND'')"
proof -
  note friend = isAccepted_requester_truthy [of "friends st" "users st" tok]
  show ?thesis
    using assms(4) friend
    by (auto simp: getLand_known [OF assms(1-3)] serveLand_def Let_def truthy_def readFile_def)
qed

text \<open>
  Witness for C7: account 43 reads its own land, whose file is the zero-byte
  placeholder, and is answered NotFound.
\<close>

theorem getLand_not_found_witness:
  "gameToken (bearer ''AT43'') = Some ''AT43'' \<and> ''AT43'' \<noteq> []
   \<and> getUserByIdParam (users demoServer) ''43'' = Some newcomer43
   \<and> UserAccessToken newcomer43 = Some ''AT43''
   \<and> LandSavePath newcomer43 = Some ''data/43/43.land''
   \<and> files demoServer ''data/43/43.land'' = Some []
   \<and> fst (getLand toyPb demoConfig 5000 ''session_c'' demoServer ''43'' ''hostA'' (bearer ''AT43''))
       = ErrorXml 404 ''NO_SUCH_RESOURCE'' ''LAND_NOT_FOUND''"
proof -
  have h1: "gameToken (bearer ''AT43'') = Some ''AT43''"
    by (simp add: gameToken_def bearer_def js_or_def truthy_def)
  have h2: "''AT43'' \<noteq> []" by simp
  have h3: "getUserByIdParam (users demoServer) ''43'' = Some newcomer43"
    by code_simp
  have h4: "UserAccessToken newcomer43 = Some ''AT43''" by (simp add: newcomer43_def)
  have h5: "LandSavePath newcomer43 = Some ''data/43/43.land''" by (simp add: newcomer43_def)
  have h6: "files demoServer ''data/43/43.land'' = Some []"
    by (simp add: demoServer_def demoFiles_def)
  note main = getLand_not_found [OF h1 h2 h3 disjI1 [OF h4], of toyPb demoConfig 5000 "''session_c''" "''hostA''"]
  from main h5 h6 have "fst (getLand toyPb demoConfig 5000 ''session_c'' demoServer ''43'' ''hostA'' (bearer ''AT43''))
       = ErrorXml 404 ''NO_SUCH_RESOURCE'' ''LAND_NOT_FOUND''"
    by blast
  then show ?thesis
    using h1 h2 h3 h4 h5 h6 by simp
qed

text \<open>
  Claim C8. For a read with a bearer token of an existing account's land: when the
  requester is not the owner (the token is not the owner's access token) and has no
  accepted friend row towards the owner, the request is rejected (the handler's
  rejection is \<open>400 BAD_REQUEST\<close>); when the requester is the owner, the stored
  document is returned under the requested id; when the requester is an accepted
  friend, the stored document is returned with the owner's visitors as its friend
  list. The document is the decoded non-empty file under the registered path; whether
  or not there is one, the owner and an accepted friend are never answered with the
  rejection.
\<close>

theorem getLand_authorisation:
  assumes "gameToken h = Some tok" and "tok \<noteq> []"
    and "getUserByIdParam (users st) landIdParam = Some u"
  shows "(UserAccessToken u \<noteq> Some tok
          \<and> \<not> isAccepted (friends st) (requesterMayhemId (users st) tok) (Some (landOwnerId u landIdParam))
          \<longrightarrow> fst (getLand pb cfg now newId st landIdParam host h)
              = ErrorXml 400 ''BAD_REQUEST'' ''Invalid AcessToken for specified MayhemId'')
       \<and> (\<forall>p d m. LandSavePath u = Some p \<and> p \<noteq> [] \<and> files st p = Some d \<and> d \<noteq> []
              \<and> decodeLandMessage pb d = Some m \<longrightarrow>
            (UserAccessToken u = Some tok \<longrightarrow>
               fst (getLand pb cfg now newId st landIdParam host h)
                 = LandMessageResponse (m\<lparr>landId := landIdParam\<rparr>))
          \<and> (UserAccessToken u \<noteq> Some tok
              \<and> isAccepted (friends st) (requesterMayhemId (users st) tok) (Some (landOwnerId u landIdParam))
              \<longrightarrow> fst (getLand pb cfg now newId st landIdParam host h)
                 = LandMessageResponse (m\<lparr>landId := landIdParam,
                     friendListData := map visitorEntry
                       (uniqueVisitors (loadEvents pb cfg st (landOwnerId u landIdParam)))\<rparr>)))
       \<and> (UserAccessToken u = Some tok
          \<or> isAccepted (friends st) (requesterMayhemId (users st) tok) (Some (landOwnerId u landIdParam))
          \<longrightarrow> fst (getLand pb cfg now newId st landIdParam host h)
              \<noteq> ErrorXml 400 ''BAD_REQUEST'' ''Invalid AcessToken for specified MayhemId'')"
proof -
  note friend = isAccepted_requester_truthy [of "friends st" "users st" tok]
  show ?thesis
    using friend
    by (auto simp: getLand_known [OF assms(1-3)] serveLand_def Let_def truthy_def readFile_def
        split: option.splits)
qed

text \<open>
  Witness for C8: account 43 is refused the land of 42 while there is no friend row,
  and is served it once the friendship is accepted; the owner is served it as well.
\<close>

theorem getLand_authorisation_witness:
  "gameToken (bearer ''AT43'') = Some ''AT43'' \<and> ''AT43'' \<noteq> []
   \<and> getUserByIdParam (users demoServer) ''42'' = Some owner42
   \<and> getUserByIdParam (users befriended) ''42'' = Some owner42
   \<and> fst (getLand toyPb demoConfig 5000 ''session_c'' demoServer ''42'' ''hostA'' (bearer ''AT43''))
       = ErrorXml 400 ''BAD_REQUEST'' ''Invalid AcessToken for specified MayhemId''
   \<and> isAccepted (friends befriended) (Some ''43'') (Some ''42'')
   \<and> fst (getLand toyPb demoConfig 8000 ''session_c'' befriended ''42'' ''hostA'' (bearer ''AT43''))
       = LandMessageResponse \<lparr>landId = ''42'', friendListData = [], landRest = [0xAA, 0xBB]\<rparr>"
proof -
  have h1: "gameToken (bearer ''AT43'') = Some ''AT43''"
    by (simp add: gameToken_def bearer_def js_or_def truthy_def)
  have h2: "''AT43'' \<noteq> []" by simp
  have h3: "getUserByIdParam (users demoServer) ''42'' = Some owner42" by code_simp
  have h3': "getUserByIdParam (users befriended) ''42'' = Some owner42" by code_simp
  have notOwner: "UserAccessToken owner42 \<noteq> Some ''AT43''" by (simp add: owner42_def)
  have stranger: "\<not> isAccepted (friends demoServer) (requesterMayhemId (users demoServer) ''AT43'')
      (Some (landOwnerId owner42 ''42''))"
    by code_simp
  have friend: "isAccepted (friends befriended) (requesterMayhemId (users befriended) ''AT43'')
      (Some (landOwnerId owner42 ''42''))"
    by code_simp
  have friend': "isAccepted (friends befriended) (Some ''43'') (Some ''42'')" by code_simp
  have doc: "LandSavePath owner42 = Some ''data/42/42.land'' \<and> ''data/42/42.land'' \<noteq> []
      \<and> files befriended ''data/42/42.land'' = Some [0xAA, 0xBB] \<and> [0xAA, 0xBB] \<noteq> ([] :: bytes)
      \<and> decodeLandMessage toyPb [0xAA, 0xBB]
          = Some \<lparr>landId = [], friendListData = [], landRest = [0xAA, 0xBB]\<rparr>"
    by code_simp
  have visitors: "loadEvents toyPb demoConfig befriended (landOwnerId owner42 ''42'') = []"
    by code_simp
  note refused = getLand_authorisation [OF h1 h2 h3, of toyPb demoConfig 5000 "''session_c''" "''hostA''",
      THEN conjunct1, rule_format, OF conjI [OF notOwner stranger]]
  note served = getLand_authorisation [OF h1 h2 h3', of toyPb demoConfig 8000 "''session_c''" "''hostA''",
      THEN conjunct2, THEN conjunct1, rule_format, OF doc, THEN conjunct2, rule_format,
      OF conjI [OF notOwner friend]]
  have served': "fst (getLand toyPb demoConfig 8000 ''session_c'' befriended ''42'' ''hostA'' (bearer ''AT43''))
       = LandMessageResponse \<lparr>landId = ''42'', friendListData = [], landRest = [0xAA, 0xBB]\<rparr>"
    using served by (simp add: visitors uniqueVisitors_def)
  show ?thesis
    by (intro conjI h1 h2 h3 h3' refused friend' served')
qed

text \<open>
  Claim C10, as the code has it. A read that presents a bearer token (any non-empty
  token: it is not validated before this answer) and names an identifier with no
  account record is answered with the empty placeholder document that carries the
  requested identifier. An existing account whose land file has zero bytes is answered
  NotFound when its owner reads it, so the two cases differ at this interface.
\<close>

theorem getLand_unknown_placeholder:
  assumes "gameToken h = Some tok" and "tok \<noteq> []"
  shows "(getUserByIdParam (users st) landIdParam = None \<longrightarrow>
            fst (getLand pb cfg now newId st landIdParam host h)
              = LandMessageResponse \<lparr>landId = landIdParam, friendListData = [], landRest = []\<rparr>)
       \<and> (\<forall>u p. getUserByIdParam (users st) landIdParam = Some u \<and> UserAccessToken u = Some tok
              \<and> LandSavePath u = Some p \<and> files st p = Some [] \<longrightarrow>
            fst (getLand pb cfg now newId st landIdParam host h)
              = ErrorXml 404 ''NO_SUCH_RESOURCE'' ''LAND_NOT_FOUND'')"
proof (intro conjI allI impI)
  assume "getUserByIdParam (users st) landIdParam = None"
  with assms show "fst (getLand pb cfg now newId st landIdParam host h)
      = LandMessageResponse \<lparr>landId = landIdParam, friendListData = [], landRest = []\<rparr>"
    by (simp add: getLand_unknown)
next
  fix u p
  assume a: "getUserByIdParam (users st) landIdParam = Some u \<and> UserAccessToken u = Some tok
      \<and> LandSavePath u = Some p \<and> files st p = Some []"
  then have known: "getUserByIdParam (users st) landIdParam = Some u" by simp
  show "fst (getLand pb cfg now newId st landIdParam host h)
      = ErrorXml 404 ''NO_SUCH_RESOURCE'' ''LAND_NOT_FOUND''"
    using a by (auto simp: getLand_known [OF assms known] serveLand_def Let_def truthy_def readFile_def)
qed

text \<open>
  Witness for C10: with the token of account 42, the unknown identifier 99 is answered
  with the placeholder for 99.
\<close>

theorem getLand_unknown_placeholder_witness:
  "gameToken (bearer ''AT42'') = Some ''AT42'' \<and> ''AT42'' \<noteq> []
   \<and> getUserByIdParam (users demoServer) ''99'' = None
   \<and> fst (getLand toyPb demoConfig 5000 ''session_c'' demoServer ''99'' ''hostA'' (bearer ''AT42''))
       = LandMessageResponse \<lparr>landId = ''99'', friendListData = [], landRest = []\<rparr>"
proof -
  have h1: "gameToken (bearer ''AT42'') = Some ''AT42''"
    by (simp add: gameToken_def bearer_def js_or_def truthy_def)
  have h2: "''AT42'' \<noteq> []" by simp
  have h3: "getUserByIdParam (users demoServer) ''99'' = None" by code_simp
  note main = getLand_unknown_placeholder [OF h1 h2, of demoServer "''99''" toyPb demoConfig 5000
      "''session_c''" "''hostA''", THEN conjunct1, rule_format, OF h3]
  show ?thesis
    by (intro conjI h1 h2 h3 main)
qed

text \<open>
  Counterexample to C10 as stated (unknown identifiers are indistinguishable from
  never-saved accounts): account 43 has never saved, its land file is the zero-byte
  placeholder. With the token of 43, a read of the unknown identifier 99 is answered
  with a placeholder document, a read of 43 itself with NotFound.
\<close>

theorem unknown_versus_never_saved_counterexample:
  "getUserByIdParam (users demoServer) ''99'' = None
   \<and> fst (getLand toyPb demoConfig 5000 ''session_c'' demoServer ''99'' ''hostA'' (bearer ''AT43''))
       = LandMessageResponse \<lparr>landId = ''99'', friendListData = [], landRest = []\<rparr>
   \<and> getUserByIdParam (users demoServer) ''43'' = Some newcomer43
   \<and> files demoServer ''data/43/43.land'' = Some []
   \<and> fst (getLand toyPb demoConfig 5000 ''session_c'' demoServer ''43'' ''hostA'' (bearer ''AT43''))
       = ErrorXml 404 ''NO_SUCH_RESOURCE'' ''LAND_NOT_FOUND''"
  by code_simp

section \<open>The currency ledger\<close>

lemma foldl_amount:
  "foldl (\<lambda>acc cd. acc + amount cd) a ds = a + sum_list (map amount ds)"
  by (induction ds arbitrary: a) auto

text \<open>
  What \<open>ensureCurrencyFile\<close> leaves at the path: the stored bytes, or for a missing or
  empty file the record seeded with the starting amount and nothing purchased. No other
  file changes.
\<close>

lemma ensureCurrencyFile_at:
  "ensureCurrencyFile pb now fs l p s p =
     Some (case fs p of
         None \<Rightarrow> encodeCurrencyData pb \<lparr>currencyId = l, vcTotalPurchased = 0, vcTotalAwarded = s,
             vcBalance = s, currencyCreatedAt = 1715911362, updatedAt = now\<rparr>
       | Some d \<Rightarrow> if d = [] then encodeCurrencyData pb \<lparr>currencyId = l, vcTotalPurchased = 0,
             vcTotalAwarded = s, vcBalance = s, currencyCreatedAt = 1715911362, updatedAt = now\<rparr>
           else d)"
  by (simp add: ensureCurrencyFile_def Let_def split: option.splits)

lemma ensureCurrencyFile_other:
  "q \<noteq> p \<Longrightarrow> ensureCurrencyFile pb now fs l p s q = fs q"
  by (simp add: ensureCurrencyFile_def Let_def split: option.splits)

text \<open>
  An account with a registered currency path. The record the update starts from is the
  stored one, or the seed when the file is missing or empty (the empty file of a new
  account). The amounts of the batch are summed and added to \<open>vcTotalAwarded\<close>,
  \<open>vcBalance\<close> is set to the new \<open>vcTotalAwarded\<close>, \<open>vcTotalPurchased\<close> is copied; the
  record is written to the registered path, no other file and no row changes; the
  answer holds one processed delta per delta of the request, in order, each with the id
  of its delta.
\<close>

lemma extraLandUpdate_registered:
  assumes "gameToken h = Some tok" and "tok \<noteq> []"
    and "userByMayhemId (users st) landIdParam = Some u" and "UserAccessToken u = Some tok"
    and "CurrencySavePath u = Some p" and "p \<noteq> []"
    and "ensureCurrencyFile pb now (files st) landIdParam p (startingDonuts cfg) p = Some d"
    and "decodeCurrencyData pb d = Some c"
    and "decodeExtraLandMessage pb reqBody = Some msg"
  shows "fst (extraLandUpdate pb cfg now st landIdParam h reqBody)
           = ExtraLandResponse (map deltaId (currencyDelta msg))
       \<and> files (snd (extraLandUpdate pb cfg now st landIdParam h reqBody)) p
           = Some (encodeCurrencyData pb
               \<lparr>currencyId = currencyId c,
                vcTotalPurchased = vcTotalPurchased c,
                vcTotalAwarded = vcTotalAwarded c + sum_list (map amount (currencyDelta msg)),
                vcBalance = vcTotalAwarded c + sum_list (map amount (currencyDelta msg)),
                currencyCreatedAt = 1715911362, updatedAt = now\<rparr>)
       \<and> (\<forall>q. q \<noteq> p \<longrightarrow> files (snd (extraLandUpdate pb cfg now st landIdParam h reqBody)) q = files st q)
       \<and> users (snd (extraLandUpdate pb cfg now st landIdParam h reqBody)) = users st"
  using assms
  by (simp add: extraLandUpdate_def Let_def truthy_def readFile_def ensureCurrencyFile_other
      foldl_amount)

text \<open>
  Every record the code writes has nothing purchased: the seed stores
  \<open>vcTotalPurchased = 0\<close> and the update copies the field. On such a record the balance
  the update stores is \<open>vcTotalAwarded + vcTotalPurchased\<close> of the new record.
\<close>

lemma extraLandUpdate_balance:
  assumes "gameToken h = Some tok" and "tok \<noteq> []"
    and "userByMayhemId (users st) landIdParam = Some u" and "UserAccessToken u = Some tok"
    and "CurrencySavePath u = Some p" and "p \<noteq> []"
    and "ensureCurrencyFile pb now (files st) landIdParam p (startingDonuts cfg) p = Some d"
    and "decodeCurrencyData pb d = Some c" and "vcTotalPurchased c = 0"
    and "decodeExtraLandMessage pb reqBody = Some msg"
  shows "\<exists>r. files (snd (extraLandUpdate pb cfg now st landIdParam h reqBody)) p
             = Some (encodeCurrencyData pb r)
           \<and> vcTotalPurchased r = 0
           \<and> vcTotalAwarded r = vcTotalAwarded c + sum_list (map amount (currencyDelta msg))
           \<and> vcBalance r = vcTotalAwarded r + vcTotalPurchased r"
  using extraLandUpdate_registered [OF assms(1-8) assms(10)] assms(9)
  by (intro exI [where x = "\<lparr>currencyId = currencyId c,
                vcTotalPurchased = vcTotalPurchased c,
                vcTotalAwarded = vcTotalAwarded c + sum_list (map amount (currencyDelta msg)),
                vcBalance = vcTotalAwarded c + sum_list (map amount (currencyDelta msg)),
                currencyCreatedAt = 1715911362, updatedAt = now\<rparr>"]) simp

text \<open>
  An account with no registered currency path (the column is NULL). The update
  registers the default path in the row and seeds the file there, and then reads
  \<open>userData.CurrencySavePath\<close>, the value of the row as it was selected, which is still
  null: the read throws, whatever the request body holds, and the request ends in the
  error handler. No delta is applied and none is acknowledged.
\<close>

lemma extraLandUpdate_unregistered:
  assumes "gameToken h = Some tok" and "tok \<noteq> []"
    and "userByMayhemId (users st) landIdParam = Some u" and "UserAccessToken u = Some tok"
    and "CurrencySavePath u = None"
  shows "extraLandUpdate pb cfg now st landIdParam h reqBody =
     (NextError,
      st\<lparr>users := map (\<lambda>r. if MayhemId r = Some landIdParam
                then r\<lparr>CurrencySavePath := Some (currencyPath cfg landIdParam)\<rparr> else r) (users st),
         files := ensureCurrencyFile pb now (files st) landIdParam (currencyPath cfg landIdParam)
                    (startingDonuts cfg)\<rparr>)"
  using assms
  by (simp add: extraLandUpdate_def Let_def truthy_def readFile_def split: option.splits)

text \<open>
  The balance query of the same account reads \<open>savePath\<close>, the path it has just
  registered, and sends the record: the stored bytes, or the seed.
\<close>

lemma getCurrency_unregistered:
  assumes "gameToken h = Some tok" and "tok \<noteq> []"
    and "userByMayhemId (users st) landIdParam = Some u" and "UserAccessToken u = Some tok"
    and "CurrencySavePath u = None"
  shows "fst (getCurrency pb cfg now st landIdParam h) =
     CurrencyBytes (case files st (currencyPath cfg landIdParam) of
         None \<Rightarrow> encodeCurrencyData pb \<lparr>currencyId = landIdParam, vcTotalPurchased = 0,
             vcTotalAwarded = initialDonutAmount cfg, vcBalance = initialDonutAmount cfg,
             currencyCreatedAt = 1715911362, updatedAt = now\<rparr>
       | Some d \<Rightarrow> if d = [] then encodeCurrencyData pb \<lparr>currencyId = landIdParam,
             vcTotalPurchased = 0, vcTotalAwarded = initialDonutAmount cfg,
             vcBalance = initialDonutAmount cfg, currencyCreatedAt = 1715911362, updatedAt = now\<rparr>
           else d)"
  using assms
  by (simp add: getCurrency_def Let_def truthy_def readFile_def currencyPath_def ensureCurrencyFile_at
      split: option.splits)

text \<open>
  Claim C5 (for every account and every delta batch the update adds the sum of the
  amounts to the awarded total, stores the balance, persists, and acknowledges every
  delta) fails for an account with no registered currency path. Account 45, whose row
  has a NULL \<open>CurrencySavePath\<close>, sends the deltas 3 and 4 with its own token: the
  request ends in the error handler; the row then holds the default path, and the file
  there holds the seed of 20 with neither delta applied. The same request sent again is
  answered with both acknowledgments and stores 27, and the balance query of account 45
  in the first state sends the seeded record. Account 44, a new account with a
  registered path and an empty file, is seeded and updated by its first request: both
  deltas are acknowledged and 27 is stored.
\<close>

theorem extraLandUpdate_unregistered_fails:
  "userByMayhemId (users ledgerServer) ''45'' = Some unregistered45
   \<and> CurrencySavePath unregistered45 = None
   \<and> fst firstUpdate45 = NextError
   \<and> map CurrencySavePath (users (snd firstUpdate45))
       = [Some ''data/44/44.currency'', Some ''data/45/45.currency'']
   \<and> files (snd firstUpdate45) ''data/45/45.currency'' = Some [0, 20, 20]
   \<and> fst secondUpdate45 = ExtraLandResponse [3, 4]
   \<and> files (snd secondUpdate45) ''data/45/45.currency'' = Some [0, 27, 27]
   \<and> fst (getCurrency toyPb demoConfig 2000 ledgerServer ''45'' (bearer ''AT45''))
       = CurrencyBytes [0, 20, 20]
   \<and> files ledgerServer ''data/44/44.currency'' = Some []
   \<and> fst firstUpdate44 = ExtraLandResponse [3, 4]
   \<and> files (snd firstUpdate44) ''data/44/44.currency'' = Some [0, 27, 27]"
  by code_simp

end
